theory Spec2Isabelle
  imports Complex_Main "HOL-Library.Char_ord" "HOL-Library.List_Lexorder"
begin

section \<open>Relational schema (shared/schema.ts)\<close>

text \<open>
  Each table of the drizzle schema is a list of rows, each row a record. Columns that
  the schema leaves nullable (no \<open>.notNull()\<close>) are options with \<open>None\<close> for SQL
  NULL; \<open>uuid\<close> and \<open>varchar\<close> values are strings; timestamps and dates are
  natural numbers; \<open>decimal(10,2)\<close> amounts are integers counting hundredths.
  Columns that no storage predicate and no route reads (addresses, notes, prices,
  ...) are left out of the rows.
\<close>

record organization =
  o_id :: string
  o_name :: string

record organization_member =
  m_id :: string
  m_organizationId :: "string option"
  m_userId :: "string option"
  m_role :: string
  m_isActive :: "bool option"

record species_row =
  s_id :: string
  s_name :: string
  s_category :: string
  s_isActive :: "bool option"

record customer =
  c_id :: string
  c_organizationId :: "string option"
  c_name :: string
  c_email :: "string option"
  c_isActive :: "bool option"
  c_createdAt :: nat
  c_updatedAt :: nat

record processing_record =
  pr_id :: string
  pr_organizationId :: "string option"
  pr_processingDate :: nat
  pr_totalRetailWeight :: "int option"

record cut_instruction =
  ci_id :: string
  ci_organizationId :: "string option"
  ci_name :: string
  ci_createdAt :: nat

record inventory_item =
  ii_id :: string
  ii_organizationId :: "string option"
  ii_name :: string
  ii_isActive :: "bool option"

record invoice =
  inv_id :: string
  inv_organizationId :: "string option"
  inv_total :: int
  inv_status :: string
  inv_createdAt :: nat

text \<open>
  The insert types (\<open>InsertCustomer\<close> and its siblings, with \<open>id\<close>,
  \<open>createdAt\<close> and \<open>updatedAt\<close> omitted by the zod schemas; the species schema
  omits nothing). A column with a default may be absent from the insert: the outer
  option is "given or not", the inner one the nullable value.
\<close>

record insert_species =
  is_id :: "string option"
  is_name :: string
  is_category :: string
  is_isActive :: "bool option option"

record insert_customer =
  ic_organizationId :: "string option"
  ic_name :: string
  ic_email :: "string option"
  ic_isActive :: "bool option option"

record insert_processing_record =
  ipr_organizationId :: "string option"
  ipr_processingDate :: nat
  ipr_totalRetailWeight :: "int option"

record insert_cut_instruction =
  ici_organizationId :: "string option"
  ici_name :: string

record insert_inventory_item =
  iii_organizationId :: "string option"
  iii_name :: string
  iii_isActive :: "bool option option"

record insert_invoice =
  iinv_organizationId :: "string option"
  iinv_total :: int
  iinv_status :: "string option"

text \<open>
  \<open>Partial<InsertCustomer>\<close>, the body of a customer update: every field may be
  absent (\<open>None\<close>); a present field carries the new column value.
\<close>

record customer_patch =
  p_organizationId :: "string option option"
  p_name :: "string option"
  p_email :: "string option option"
  p_isActive :: "bool option option"

record database =
  organizations :: "organization list"
  organizationMembers :: "organization_member list"
  species :: "species_row list"
  customers :: "customer list"
  processingRecords :: "processing_record list"
  cutInstructions :: "cut_instruction list"
  inventoryItems :: "inventory_item list"
  invoices :: "invoice list"

section \<open>The storage layer (server/storage.ts)\<close>

text \<open>
  Every method of \<open>DatabaseStorage\<close> awaits a query, which either rejects (the
  promise throws: the database is unreachable, the statement is refused) or has the
  effect of its SQL statement. Which calls reject is not decided by the program, so it
  is an input of the model: \<open>faults\<close> is the schedule of the coming storage calls,
  \<open>True\<close> for a call that rejects, and a schedule that has run out means no further
  rejection: \<open>rejectsAt n w\<close> says that the call after the next \<open>n\<close> ones
  rejects. A rejected call leaves the tables as they were; \<open>logged c w\<close> is the
  world after the call \<open>c\<close>, whatever its outcome, tables apart. A statement that
  the database refuses for a constraint of the schema (a duplicate key, a dangling
  foreign key, a text that is no uuid) is a rejection like any other: the schedule
  decides it, not the tables. \<open>trace\<close> lists the
  storage methods called so far, in order; \<open>now\<close> is what \<open>new Date()\<close> and
  \<open>defaultNow()\<close> read.
\<close>

datatype call =
    GetOrganization string
  | GetUserOrganizations string
  | GetUserRole string "string option"
  | CreateSpecies
  | GetCustomers string
  | GetCustomer string
  | CreateCustomer "string option"
  | UpdateCustomer string
  | DeleteCustomer string
  | GetProcessingRecords string
  | CreateProcessingRecord "string option"
  | GetCutInstructions string
  | CreateCutInstruction "string option"
  | GetInventoryItems string
  | CreateInventoryItem "string option"
  | GetInvoices string
  | CreateInvoice "string option"
  | GetDashboardMetrics string

record world =
  db :: database
  faults :: "bool list"
  trace :: "call list"
  now :: nat

datatype 'a result = Threw | Ret 'a

definition rejectsAt :: "nat \<Rightarrow> world \<Rightarrow> bool" where
  "rejectsAt n w = (n < length (faults w) \<and> faults w ! n)"

definition logged :: "call \<Rightarrow> world \<Rightarrow> world" where
  "logged c w = w\<lparr>faults := drop 1 (faults w), trace := trace w @ [c]\<rparr>"

definition attempt :: "call \<Rightarrow> world \<Rightarrow> bool \<times> world" where
  "attempt c w = (\<not> rejectsAt 0 w, logged c w)"

text \<open>\<open>noFaults\<close>: no coming storage call rejects.\<close>

definition noFaults :: "world \<Rightarrow> bool" where
  "noFaults w = (True \<notin> set (faults w))"

text \<open>
  \<open>eq(column, value)\<close> is SQL equality: a comparison with NULL on either side
  selects no row.
\<close>

definition sqlEq :: "'a option \<Rightarrow> 'a option \<Rightarrow> bool" where
  "sqlEq a b = (case a of None \<Rightarrow> False | Some x \<Rightarrow> (case b of None \<Rightarrow> False | Some y \<Rightarrow> x = y))"

subsection \<open>Organizations and members\<close>

definition selectOrganization :: "string \<Rightarrow> organization list \<Rightarrow> organization option" where
  "selectOrganization ident os = find (\<lambda>o'. o_id o' = ident) os"

definition getOrganization :: "string \<Rightarrow> world \<Rightarrow> organization option result \<times> world" where
  "getOrganization ident w =
     (case attempt (GetOrganization ident) w of
        (ok, w') \<Rightarrow>
          if ok then (Ret (selectOrganization ident (organizations (db w'))), w')
          else (Threw, w'))"

definition activeMemberOf :: "string \<Rightarrow> string option \<Rightarrow> organization_member \<Rightarrow> bool" where
  "activeMemberOf userId orgId m =
     (sqlEq (m_userId m) (Some userId) \<and> sqlEq (m_organizationId m) orgId
      \<and> sqlEq (m_isActive m) (Some True))"

text \<open>
  The inner join of \<open>getUserOrganizations\<close>: one organization row for every pair of
  an organization and an active member row of the user that points to it.
\<close>

definition selectUserOrganizations ::
  "string \<Rightarrow> organization list \<Rightarrow> organization_member list \<Rightarrow> organization list" where
  "selectUserOrganizations userId os ms =
     concat (map (\<lambda>o'. map (\<lambda>m. o') (filter (activeMemberOf userId (Some (o_id o'))) ms)) os)"

definition getUserOrganizations :: "string \<Rightarrow> world \<Rightarrow> organization list result \<times> world" where
  "getUserOrganizations userId w =
     (case attempt (GetUserOrganizations userId) w of
        (ok, w') \<Rightarrow>
          if ok then (Ret (selectUserOrganizations userId (organizations (db w'))
                            (organizationMembers (db w'))), w')
          else (Threw, w'))"

text \<open>
  \<open>getUserRole\<close>: the first selected row, \<open>member?.role || null\<close>. An empty role
  string is falsy in JavaScript, so it comes back as \<open>null\<close> too. The routes pass
  \<open>record.organizationId!\<close>, where \<open>!\<close> is a compile-time assertion only: a
  missing organization id reaches the query as NULL, hence the option.
\<close>

definition selectUserRole ::
  "string \<Rightarrow> string option \<Rightarrow> organization_member list \<Rightarrow> string option" where
  "selectUserRole userId orgId ms =
     (case filter (activeMemberOf userId orgId) ms of
        [] \<Rightarrow> None
      | m # _ \<Rightarrow> (if m_role m = [] then None else Some (m_role m)))"

definition getUserRole :: "string \<Rightarrow> string option \<Rightarrow> world \<Rightarrow> string option result \<times> world" where
  "getUserRole userId orgId w =
     (case attempt (GetUserRole userId orgId) w of
        (ok, w') \<Rightarrow>
          if ok then (Ret (selectUserRole userId orgId (organizationMembers (db w'))), w')
          else (Threw, w'))"

subsection \<open>Species\<close>

definition createSpecies ::
  "insert_species \<Rightarrow> string \<Rightarrow> world \<Rightarrow> species_row result \<times> world" where
  "createSpecies speciesData newId w =
     (case attempt CreateSpecies w of
        (ok, w') \<Rightarrow>
          if ok then
            (let row = \<lparr>s_id = (case is_id speciesData of None \<Rightarrow> newId | Some v \<Rightarrow> v),
                        s_name = is_name speciesData,
                        s_category = is_category speciesData,
                        s_isActive = (case is_isActive speciesData of
                                        None \<Rightarrow> Some True | Some v \<Rightarrow> v)\<rparr>
             in (Ret row, w'\<lparr>db := (db w')\<lparr>species := species (db w') @ [row]\<rparr>\<rparr>))
          else (Threw, w'))"

subsection \<open>Customers\<close>

text \<open>
  A new row takes its \<open>id\<close> from \<open>defaultRandom()\<close>: the value drawn is the
  argument \<open>newId\<close>. \<open>orderBy(desc(column))\<close> is the ascending sort reversed.
\<close>

definition selectCustomers :: "string \<Rightarrow> customer list \<Rightarrow> customer list" where
  "selectCustomers orgId cs =
     rev (sort_key c_createdAt
       (filter (\<lambda>c. sqlEq (c_organizationId c) (Some orgId) \<and> sqlEq (c_isActive c) (Some True)) cs))"

definition getCustomers :: "string \<Rightarrow> world \<Rightarrow> customer list result \<times> world" where
  "getCustomers orgId w =
     (case attempt (GetCustomers orgId) w of
        (ok, w') \<Rightarrow>
          if ok then (Ret (selectCustomers orgId (customers (db w'))), w') else (Threw, w'))"

definition selectCustomer :: "string \<Rightarrow> customer list \<Rightarrow> customer option" where
  "selectCustomer ident cs = find (\<lambda>c. c_id c = ident) cs"

definition getCustomer :: "string \<Rightarrow> world \<Rightarrow> customer option result \<times> world" where
  "getCustomer ident w =
     (case attempt (GetCustomer ident) w of
        (ok, w') \<Rightarrow>
          if ok then (Ret (selectCustomer ident (customers (db w'))), w') else (Threw, w'))"

definition createCustomer ::
  "insert_customer \<Rightarrow> string \<Rightarrow> world \<Rightarrow> customer result \<times> world" where
  "createCustomer customerData newId w =
     (case attempt (CreateCustomer (ic_organizationId customerData)) w of
        (ok, w') \<Rightarrow>
          if ok then
            (let row = \<lparr>c_id = newId, c_organizationId = ic_organizationId customerData,
                        c_name = ic_name customerData, c_email = ic_email customerData,
                        c_isActive = (case ic_isActive customerData of
                                        None \<Rightarrow> Some True | Some v \<Rightarrow> v),
                        c_createdAt = now w', c_updatedAt = now w'\<rparr>
             in (Ret row, w'\<lparr>db := (db w')\<lparr>customers := customers (db w') @ [row]\<rparr>\<rparr>))
          else (Threw, w'))"

text \<open>
  \<open>.set({ ...customer, updatedAt: new Date() })\<close>: the fields present in the patch
  overwrite the column, \<open>organizationId\<close> among them.
\<close>

definition applyPatch :: "customer_patch \<Rightarrow> nat \<Rightarrow> customer \<Rightarrow> customer" where
  "applyPatch p t c =
     c\<lparr>c_organizationId := (case p_organizationId p of None \<Rightarrow> c_organizationId c | Some v \<Rightarrow> v),
       c_name := (case p_name p of None \<Rightarrow> c_name c | Some v \<Rightarrow> v),
       c_email := (case p_email p of None \<Rightarrow> c_email c | Some v \<Rightarrow> v),
       c_isActive := (case p_isActive p of None \<Rightarrow> c_isActive c | Some v \<Rightarrow> v),
       c_updatedAt := t\<rparr>"

definition updateCustomer ::
  "string \<Rightarrow> customer_patch \<Rightarrow> world \<Rightarrow> customer option result \<times> world" where
  "updateCustomer ident p w =
     (case attempt (UpdateCustomer ident) w of
        (ok, w') \<Rightarrow>
          if ok then
            (let cs = map (\<lambda>c. if c_id c = ident then applyPatch p (now w') c else c)
                          (customers (db w'))
             in (Ret (selectCustomer ident cs), w'\<lparr>db := (db w')\<lparr>customers := cs\<rparr>\<rparr>))
          else (Threw, w'))"

definition softDelete :: "nat \<Rightarrow> customer \<Rightarrow> customer" where
  "softDelete t c = c\<lparr>c_isActive := Some False, c_updatedAt := t\<rparr>"

definition deleteCustomer :: "string \<Rightarrow> world \<Rightarrow> unit result \<times> world" where
  "deleteCustomer ident w =
     (case attempt (DeleteCustomer ident) w of
        (ok, w') \<Rightarrow>
          if ok then
            (Ret (), w'\<lparr>db := (db w')\<lparr>customers :=
                map (\<lambda>c. if c_id c = ident then softDelete (now w') c else c)
                    (customers (db w'))\<rparr>\<rparr>)
          else (Threw, w'))"

subsection \<open>Processing records, cut instructions, inventory items, invoices\<close>

definition selectProcessingRecords :: "string \<Rightarrow> processing_record list \<Rightarrow> processing_record list" where
  "selectProcessingRecords orgId rs =
     rev (sort_key pr_processingDate (filter (\<lambda>r. sqlEq (pr_organizationId r) (Some orgId)) rs))"

definition getProcessingRecords :: "string \<Rightarrow> world \<Rightarrow> processing_record list result \<times> world" where
  "getProcessingRecords orgId w =
     (case attempt (GetProcessingRecords orgId) w of
        (ok, w') \<Rightarrow>
          if ok then (Ret (selectProcessingRecords orgId (processingRecords (db w'))), w')
          else (Threw, w'))"

definition createProcessingRecord ::
  "insert_processing_record \<Rightarrow> string \<Rightarrow> world \<Rightarrow> processing_record result \<times> world" where
  "createProcessingRecord recordData newId w =
     (case attempt (CreateProcessingRecord (ipr_organizationId recordData)) w of
        (ok, w') \<Rightarrow>
          if ok then
            (let row = \<lparr>pr_id = newId, pr_organizationId = ipr_organizationId recordData,
                        pr_processingDate = ipr_processingDate recordData,
                        pr_totalRetailWeight = ipr_totalRetailWeight recordData\<rparr>
             in (Ret row, w'\<lparr>db := (db w')\<lparr>processingRecords := processingRecords (db w') @ [row]\<rparr>\<rparr>))
          else (Threw, w'))"

definition selectCutInstructions :: "string \<Rightarrow> cut_instruction list \<Rightarrow> cut_instruction list" where
  "selectCutInstructions orgId rs =
     rev (sort_key ci_createdAt (filter (\<lambda>r. sqlEq (ci_organizationId r) (Some orgId)) rs))"

definition getCutInstructions :: "string \<Rightarrow> world \<Rightarrow> cut_instruction list result \<times> world" where
  "getCutInstructions orgId w =
     (case attempt (GetCutInstructions orgId) w of
        (ok, w') \<Rightarrow>
          if ok then (Ret (selectCutInstructions orgId (cutInstructions (db w'))), w')
          else (Threw, w'))"

definition createCutInstruction ::
  "insert_cut_instruction \<Rightarrow> string \<Rightarrow> world \<Rightarrow> cut_instruction result \<times> world" where
  "createCutInstruction instructionData newId w =
     (case attempt (CreateCutInstruction (ici_organizationId instructionData)) w of
        (ok, w') \<Rightarrow>
          if ok then
            (let row = \<lparr>ci_id = newId, ci_organizationId = ici_organizationId instructionData,
                        ci_name = ici_name instructionData, ci_createdAt = now w'\<rparr>
             in (Ret row, w'\<lparr>db := (db w')\<lparr>cutInstructions := cutInstructions (db w') @ [row]\<rparr>\<rparr>))
          else (Threw, w'))"

definition selectInventoryItems :: "string \<Rightarrow> inventory_item list \<Rightarrow> inventory_item list" where
  "selectInventoryItems orgId rs =
     sort_key ii_name
       (filter (\<lambda>r. sqlEq (ii_organizationId r) (Some orgId) \<and> sqlEq (ii_isActive r) (Some True)) rs)"

definition getInventoryItems :: "string \<Rightarrow> world \<Rightarrow> inventory_item list result \<times> world" where
  "getInventoryItems orgId w =
     (case attempt (GetInventoryItems orgId) w of
        (ok, w') \<Rightarrow>
          if ok then (Ret (selectInventoryItems orgId (inventoryItems (db w'))), w')
          else (Threw, w'))"

definition createInventoryItem ::
  "insert_inventory_item \<Rightarrow> string \<Rightarrow> world \<Rightarrow> inventory_item result \<times> world" where
  "createInventoryItem itemData newId w =
     (case attempt (CreateInventoryItem (iii_organizationId itemData)) w of
        (ok, w') \<Rightarrow>
          if ok then
            (let row = \<lparr>ii_id = newId, ii_organizationId = iii_organizationId itemData,
                        ii_name = iii_name itemData,
                        ii_isActive = (case iii_isActive itemData of
                                         None \<Rightarrow> Some True | Some v \<Rightarrow> v)\<rparr>
             in (Ret row, w'\<lparr>db := (db w')\<lparr>inventoryItems := inventoryItems (db w') @ [row]\<rparr>\<rparr>))
          else (Threw, w'))"

definition selectInvoices :: "string \<Rightarrow> invoice list \<Rightarrow> invoice list" where
  "selectInvoices orgId rs =
     rev (sort_key inv_createdAt (filter (\<lambda>r. sqlEq (inv_organizationId r) (Some orgId)) rs))"

definition getInvoices :: "string \<Rightarrow> world \<Rightarrow> invoice list result \<times> world" where
  "getInvoices orgId w =
     (case attempt (GetInvoices orgId) w of
        (ok, w') \<Rightarrow>
          if ok then (Ret (selectInvoices orgId (invoices (db w'))), w') else (Threw, w'))"

definition createInvoice ::
  "insert_invoice \<Rightarrow> string \<Rightarrow> world \<Rightarrow> invoice result \<times> world" where
  "createInvoice invoiceData newId w =
     (case attempt (CreateInvoice (iinv_organizationId invoiceData)) w of
        (ok, w') \<Rightarrow>
          if ok then
            (let row = \<lparr>inv_id = newId, inv_organizationId = iinv_organizationId invoiceData,
                        inv_total = iinv_total invoiceData,
                        inv_status = (case iinv_status invoiceData of
                                        None \<Rightarrow> ''draft'' | Some v \<Rightarrow> v),
                        inv_createdAt = now w'\<rparr>
             in (Ret row, w'\<lparr>db := (db w')\<lparr>invoices := invoices (db w') @ [row]\<rparr>\<rparr>))
          else (Threw, w'))"

subsection \<open>Dashboard metrics\<close>

text \<open>
  The four aggregates of \<open>getDashboardMetrics\<close>, awaited one after the other;
  the method rejects when one of them does, and they only read. \<open>sum\<close> and \<open>avg\<close> come back as
  decimal text that the method passes through \<open>parseFloat\<close>; the model keeps the
  exact values (hundredths, and their mean as a rational) and leaves the rounding to
  a double out. \<open>avg\<close> skips NULLs; over no value both aggregates are NULL, read
  as \<open>"0"\<close>.
\<close>

record metrics =
  totalAnimals :: nat
  revenue :: int
  averageYield :: rat
  activeCustomers :: nat

definition selectDashboardMetrics :: "string \<Rightarrow> database \<Rightarrow> metrics" where
  "selectDashboardMetrics orgId d =
     (let recs = filter (\<lambda>r. sqlEq (pr_organizationId r) (Some orgId)) (processingRecords d);
          paid = filter (\<lambda>i. sqlEq (inv_organizationId i) (Some orgId) \<and> inv_status i = ''paid'')
                   (invoices d);
          weights = concat (map (\<lambda>r. case pr_totalRetailWeight r of None \<Rightarrow> [] | Some x \<Rightarrow> [x]) recs);
          active = filter (\<lambda>c. sqlEq (c_organizationId c) (Some orgId) \<and> sqlEq (c_isActive c) (Some True))
                     (customers d)
      in \<lparr>totalAnimals = length recs,
          revenue = sum_list (map inv_total paid),
          averageYield = (if weights = [] then 0
                          else of_int (sum_list weights) / of_nat (length weights)),
          activeCustomers = length active\<rparr>)"

definition getDashboardMetrics :: "string \<Rightarrow> world \<Rightarrow> metrics result \<times> world" where
  "getDashboardMetrics orgId w =
     (case attempt (GetDashboardMetrics orgId) w of
        (ok, w') \<Rightarrow>
          if ok then (Ret (selectDashboardMetrics orgId (db w')), w') else (Threw, w'))"

section \<open>The routes (server/routes.ts)\<close>

text \<open>
  A route handler runs after the middleware chain: the rate limiters (which answer
  429 on their own count of requests), \<open>sanitizeInput\<close> and
  \<open>sqlInjectionProtection\<close>, which rewrite and inspect \<open>req.body\<close> and
  \<open>req.query\<close> only, never \<open>req.params\<close>, and \<open>isAuthenticated\<close>, which
  supplies \<open>req.user.claims.sub\<close>, the \<open>userId\<close> argument below. The handlers
  are modelled from the point where the chain hands the request over. A handler maps the
  request and the world to the response it sends and the world it leaves. The
  \<open>try\<close>/\<open>catch\<close> of each handler is the \<open>Threw\<close> branch of each call. A
  request body goes through \<open>schema.parse\<close>, which throws on a body the zod schema
  refuses: the argument \<open>parsed\<close> is the parsed body, \<open>None\<close> when \<open>parse\<close>
  throws. The routes that look no role up (\<open>GET /api/auth/user\<close>, \<open>GET\<close> and
  \<open>POST /api/organizations\<close>, \<open>GET /api/species\<close>) are left out.
\<close>

datatype payload =
    Message string
  | OrganizationJ organization
  | MetricsJ metrics
  | SpeciesJ species_row
  | CustomersJ "customer list"
  | CustomerJ "customer option"
  | ProcessingRecordsJ "processing_record list"
  | ProcessingRecordJ processing_record
  | CutInstructionsJ "cut_instruction list"
  | CutInstructionJ cut_instruction
  | InventoryItemsJ "inventory_item list"
  | InventoryItemJ inventory_item
  | InvoicesJ "invoice list"
  | InvoiceJ invoice

record response =
  status :: nat
  body :: payload

definition respond :: "nat \<Rightarrow> string \<Rightarrow> response" where
  "respond code msg = \<lparr>status = code, body = Message msg\<rparr>"

definition json :: "payload \<Rightarrow> response" where
  "json p = \<lparr>status = 200, body = p\<rparr>"

text \<open>\<open>!role\<close> on a \<open>string | null\<close>, and \<open>[...].includes(role)\<close>.\<close>

definition falsy :: "string option \<Rightarrow> bool" where
  "falsy role = (case role of None \<Rightarrow> True | Some r \<Rightarrow> r = [])"

definition includesRole :: "string list \<Rightarrow> string option \<Rightarrow> bool" where
  "includesRole xs role = (case role of None \<Rightarrow> False | Some r \<Rightarrow> r \<in> set xs)"

subsection \<open>Organization and dashboard\<close>

definition getOrganizationHandler :: "string \<Rightarrow> string \<Rightarrow> world \<Rightarrow> response \<times> world" where
  "getOrganizationHandler userId orgId w =
     (case getUserRole userId (Some orgId) w of
        (Threw, w1) \<Rightarrow> (respond 500 ''Failed to fetch organization'', w1)
      | (Ret role, w1) \<Rightarrow>
          if falsy role then (respond 403 ''Access denied'', w1)
          else (case getOrganization orgId w1 of
                  (Threw, w2) \<Rightarrow> (respond 500 ''Failed to fetch organization'', w2)
                | (Ret None, w2) \<Rightarrow> (respond 404 ''Organization not found'', w2)
                | (Ret (Some organization), w2) \<Rightarrow> (json (OrganizationJ organization), w2)))"

definition getDashboardHandler :: "string \<Rightarrow> string \<Rightarrow> world \<Rightarrow> response \<times> world" where
  "getDashboardHandler userId orgId w =
     (case getUserRole userId (Some orgId) w of
        (Threw, w1) \<Rightarrow> (respond 500 ''Failed to fetch dashboard metrics'', w1)
      | (Ret role, w1) \<Rightarrow>
          if falsy role then (respond 403 ''Access denied'', w1)
          else (case getDashboardMetrics orgId w1 of
                  (Threw, w2) \<Rightarrow> (respond 500 ''Failed to fetch dashboard metrics'', w2)
                | (Ret rows, w2) \<Rightarrow> (json (MetricsJ rows), w2)))"

subsection \<open>Species\<close>

text \<open>
  \<open>POST /api/species\<close> asks \<open>getUserRole\<close> once for each organization of the
  user. \<open>Promise.all\<close> starts every lookup and rejects when one of them does.
\<close>

fun roleChecks :: "string \<Rightarrow> organization list \<Rightarrow> world \<Rightarrow> bool result list \<times> world" where
  "roleChecks userId [] w = ([], w)"
| "roleChecks userId (org # orgs) w =
     (case getUserRole userId (Some (o_id org)) w of
        (r, w1) \<Rightarrow>
          (case roleChecks userId orgs w1 of
             (rs, w2) \<Rightarrow>
               ((case r of
                   Threw \<Rightarrow> Threw
                 | Ret role \<Rightarrow> Ret (role = Some ''owner'' \<or> role = Some ''admin'')) # rs, w2)))"

fun promiseAll :: "'a result list \<Rightarrow> 'a list result" where
  "promiseAll [] = Ret []"
| "promiseAll (Threw # rs) = Threw"
| "promiseAll (Ret x # rs) = (case promiseAll rs of Threw \<Rightarrow> Threw | Ret xs \<Rightarrow> Ret (x # xs))"

definition postSpeciesHandler ::
  "string \<Rightarrow> insert_species option \<Rightarrow> string \<Rightarrow> world \<Rightarrow> response \<times> world" where
  "postSpeciesHandler userId parsed newId w =
     (case parsed of
        None \<Rightarrow> (respond 500 ''Failed to create species'', w)
      | Some speciesData \<Rightarrow>
          (case getUserOrganizations userId w of
             (Threw, w1) \<Rightarrow> (respond 500 ''Failed to create species'', w1)
           | (Ret userOrganizations, w1) \<Rightarrow>
               (case roleChecks userId userOrganizations w1 of
                  (rs, w2) \<Rightarrow>
                    (case promiseAll rs of
                       Threw \<Rightarrow> (respond 500 ''Failed to create species'', w2)
                     | Ret hasAdminRole \<Rightarrow>
                         if length userOrganizations = 0 \<or> \<not> list_ex (\<lambda>b. b) hasAdminRole
                         then (respond 403
                                 ''Access denied. Only organization owners and admins can create species.'',
                               w2)
                         else (case createSpecies speciesData newId w2 of
                                 (Threw, w3) \<Rightarrow> (respond 500 ''Failed to create species'', w3)
                               | (Ret row, w3) \<Rightarrow> (json (SpeciesJ row), w3))))))"

subsection \<open>Customers\<close>

definition getCustomersHandler :: "string \<Rightarrow> string \<Rightarrow> world \<Rightarrow> response \<times> world" where
  "getCustomersHandler userId orgId w =
     (case getUserRole userId (Some orgId) w of
        (Threw, w1) \<Rightarrow> (respond 500 ''Failed to fetch customers'', w1)
      | (Ret role, w1) \<Rightarrow>
          if falsy role then (respond 403 ''Access denied'', w1)
          else (case getCustomers orgId w1 of
                  (Threw, w2) \<Rightarrow> (respond 500 ''Failed to fetch customers'', w2)
                | (Ret rows, w2) \<Rightarrow> (json (CustomersJ rows), w2)))"

definition postCustomersHandler ::
  "string \<Rightarrow> insert_customer option \<Rightarrow> string \<Rightarrow> world \<Rightarrow> response \<times> world" where
  "postCustomersHandler userId parsed newId w =
     (case parsed of
        None \<Rightarrow> (respond 500 ''Failed to create customer'', w)
      | Some customerData \<Rightarrow>
          (case getUserRole userId (ic_organizationId customerData) w of
             (Threw, w1) \<Rightarrow> (respond 500 ''Failed to create customer'', w1)
           | (Ret role, w1) \<Rightarrow>
               if falsy role \<or> \<not> includesRole [''owner'', ''admin'', ''editor''] role
               then (respond 403 ''Access denied'', w1)
               else (case createCustomer customerData newId w1 of
                       (Threw, w2) \<Rightarrow> (respond 500 ''Failed to create customer'', w2)
                     | (Ret row, w2) \<Rightarrow> (json (CustomerJ (Some row)), w2))))"

definition putCustomerHandler ::
  "string \<Rightarrow> string \<Rightarrow> customer_patch option \<Rightarrow> world \<Rightarrow> response \<times> world" where
  "putCustomerHandler userId customerId parsed w =
     (case parsed of
        None \<Rightarrow> (respond 500 ''Failed to update customer'', w)
      | Some customerData \<Rightarrow>
          (case getCustomer customerId w of
             (Threw, w1) \<Rightarrow> (respond 500 ''Failed to update customer'', w1)
           | (Ret None, w1) \<Rightarrow> (respond 404 ''Customer not found'', w1)
           | (Ret (Some existingCustomer), w1) \<Rightarrow>
               (case getUserRole userId (c_organizationId existingCustomer) w1 of
                  (Threw, w2) \<Rightarrow> (respond 500 ''Failed to update customer'', w2)
                | (Ret role, w2) \<Rightarrow>
                    if falsy role \<or> \<not> includesRole [''owner'', ''admin'', ''editor''] role
                    then (respond 403 ''Access denied'', w2)
                    else (case updateCustomer customerId customerData w2 of
                            (Threw, w3) \<Rightarrow> (respond 500 ''Failed to update customer'', w3)
                          | (Ret row, w3) \<Rightarrow> (json (CustomerJ row), w3)))))"

definition deleteCustomerHandler :: "string \<Rightarrow> string \<Rightarrow> world \<Rightarrow> response \<times> world" where
  "deleteCustomerHandler userId customerId w =
     (case getCustomer customerId w of
        (Threw, w1) \<Rightarrow> (respond 500 ''Failed to delete customer'', w1)
      | (Ret None, w1) \<Rightarrow> (respond 404 ''Customer not found'', w1)
      | (Ret (Some existingCustomer), w1) \<Rightarrow>
          (case getUserRole userId (c_organizationId existingCustomer) w1 of
             (Threw, w2) \<Rightarrow> (respond 500 ''Failed to delete customer'', w2)
           | (Ret role, w2) \<Rightarrow>
               if falsy role \<or> \<not> includesRole [''owner'', ''admin'', ''editor''] role
               then (respond 403 ''Access denied'', w2)
               else (case deleteCustomer customerId w2 of
                       (Threw, w3) \<Rightarrow> (respond 500 ''Failed to delete customer'', w3)
                     | (Ret u, w3) \<Rightarrow> (json (Message ''Customer deleted successfully''), w3))))"

subsection \<open>Processing records, inventory, invoices, cut instructions\<close>

definition getProcessingRecordsHandler :: "string \<Rightarrow> string \<Rightarrow> world \<Rightarrow> response \<times> world" where
  "getProcessingRecordsHandler userId orgId w =
     (case getUserRole userId (Some orgId) w of
        (Threw, w1) \<Rightarrow> (respond 500 ''Failed to fetch processing records'', w1)
      | (Ret role, w1) \<Rightarrow>
          if falsy role then (respond 403 ''Access denied'', w1)
          else (case getProcessingRecords orgId w1 of
                  (Threw, w2) \<Rightarrow> (respond 500 ''Failed to fetch processing records'', w2)
                | (Ret rows, w2) \<Rightarrow> (json (ProcessingRecordsJ rows), w2)))"

definition postProcessingRecordsHandler ::
  "string \<Rightarrow> insert_processing_record option \<Rightarrow> string \<Rightarrow> world \<Rightarrow> response \<times> world" where
  "postProcessingRecordsHandler userId parsed newId w =
     (case parsed of
        None \<Rightarrow> (respond 500 ''Failed to create processing record'', w)
      | Some recordData \<Rightarrow>
          (case getUserRole userId (ipr_organizationId recordData) w of
             (Threw, w1) \<Rightarrow> (respond 500 ''Failed to create processing record'', w1)
           | (Ret role, w1) \<Rightarrow>
               if falsy role \<or> \<not> includesRole [''owner'', ''admin'', ''editor''] role
               then (respond 403 ''Access denied'', w1)
               else (case createProcessingRecord recordData newId w1 of
                       (Threw, w2) \<Rightarrow> (respond 500 ''Failed to create processing record'', w2)
                     | (Ret row, w2) \<Rightarrow> (json (ProcessingRecordJ row), w2))))"

definition getInventoryHandler :: "string \<Rightarrow> string \<Rightarrow> world \<Rightarrow> response \<times> world" where
  "getInventoryHandler userId orgId w =
     (case getUserRole userId (Some orgId) w of
        (Threw, w1) \<Rightarrow> (respond 500 ''Failed to fetch inventory items'', w1)
      | (Ret role, w1) \<Rightarrow>
          if falsy role then (respond 403 ''Access denied'', w1)
          else (case getInventoryItems orgId w1 of
                  (Threw, w2) \<Rightarrow> (respond 500 ''Failed to fetch inventory items'', w2)
                | (Ret rows, w2) \<Rightarrow> (json (InventoryItemsJ rows), w2)))"

definition postInventoryHandler ::
  "string \<Rightarrow> insert_inventory_item option \<Rightarrow> string \<Rightarrow> world \<Rightarrow> response \<times> world" where
  "postInventoryHandler userId parsed newId w =
     (case parsed of
        None \<Rightarrow> (respond 500 ''Failed to create inventory item'', w)
      | Some itemData \<Rightarrow>
          (case getUserRole userId (iii_organizationId itemData) w of
             (Threw, w1) \<Rightarrow> (respond 500 ''Failed to create inventory item'', w1)
           | (Ret role, w1) \<Rightarrow>
               if falsy role \<or> \<not> includesRole [''owner'', ''admin'', ''editor''] role
               then (respond 403 ''Access denied'', w1)
               else (case createInventoryItem itemData newId w1 of
                       (Threw, w2) \<Rightarrow> (respond 500 ''Failed to create inventory item'', w2)
                     | (Ret row, w2) \<Rightarrow> (json (InventoryItemJ row), w2))))"

definition getInvoicesHandler :: "string \<Rightarrow> string \<Rightarrow> world \<Rightarrow> response \<times> world" where
  "getInvoicesHandler userId orgId w =
     (case getUserRole userId (Some orgId) w of
        (Threw, w1) \<Rightarrow> (respond 500 ''Failed to fetch invoices'', w1)
      | (Ret role, w1) \<Rightarrow>
          if falsy role then (respond 403 ''Access denied'', w1)
          else (case getInvoices orgId w1 of
                  (Threw, w2) \<Rightarrow> (respond 500 ''Failed to fetch invoices'', w2)
                | (Ret rows, w2) \<Rightarrow> (json (InvoicesJ rows), w2)))"

definition postInvoicesHandler ::
  "string \<Rightarrow> insert_invoice option \<Rightarrow> string \<Rightarrow> world \<Rightarrow> response \<times> world" where
  "postInvoicesHandler userId parsed newId w =
     (case parsed of
        None \<Rightarrow> (respond 500 ''Failed to create invoice'', w)
      | Some invoiceData \<Rightarrow>
          (case getUserRole userId (iinv_organizationId invoiceData) w of
             (Threw, w1) \<Rightarrow> (respond 500 ''Failed to create invoice'', w1)
           | (Ret role, w1) \<Rightarrow>
               if falsy role \<or> \<not> includesRole [''owner'', ''admin'', ''editor''] role
               then (respond 403 ''Access denied'', w1)
               else (case createInvoice invoiceData newId w1 of
                       (Threw, w2) \<Rightarrow> (respond 500 ''Failed to create invoice'', w2)
                     | (Ret row, w2) \<Rightarrow> (json (InvoiceJ row), w2))))"

definition getCutInstructionsHandler :: "string \<Rightarrow> string \<Rightarrow> world \<Rightarrow> response \<times> world" where
  "getCutInstructionsHandler userId orgId w =
     (case getUserRole userId (Some orgId) w of
        (Threw, w1) \<Rightarrow> (respond 500 ''Failed to fetch cut instructions'', w1)
      | (Ret role, w1) \<Rightarrow>
          if falsy role then (respond 403 ''Access denied'', w1)
          else (case getCutInstructions orgId w1 of
                  (Threw, w2) \<Rightarrow> (respond 500 ''Failed to fetch cut instructions'', w2)
                | (Ret rows, w2) \<Rightarrow> (json (CutInstructionsJ rows), w2)))"

definition postCutInstructionsHandler ::
  "string \<Rightarrow> insert_cut_instruction option \<Rightarrow> string \<Rightarrow> world \<Rightarrow> response \<times> world" where
  "postCutInstructionsHandler userId parsed newId w =
     (case parsed of
        None \<Rightarrow> (respond 500 ''Failed to create cut instruction'', w)
      | Some instructionData \<Rightarrow>
          (case getUserRole userId (ici_organizationId instructionData) w of
             (Threw, w1) \<Rightarrow> (respond 500 ''Failed to create cut instruction'', w1)
           | (Ret role, w1) \<Rightarrow>
               if falsy role \<or> \<not> includesRole [''owner'', ''admin'', ''editor''] role
               then (respond 403 ''Access denied'', w1)
               else (case createCutInstruction instructionData newId w1 of
                       (Threw, w2) \<Rightarrow> (respond 500 ''Failed to create cut instruction'', w2)
                     | (Ret row, w2) \<Rightarrow> (json (CutInstructionJ row), w2))))"

section \<open>The middleware (server/middleware/security.ts)\<close>

text \<open>
  \<open>validateOrganizationAccess\<close>: \<open>sub\<close> is \<open>req.user?.claims?.sub\<close>,
  \<open>paramsOrgId\<close> is \<open>req.params.orgId\<close>, and \<open>reqBody\<close> is \<open>req.body\<close>:
  \<open>None\<close> when the request has no body object, otherwise its \<open>organizationId\<close>
  field. In \<open>req.params.orgId || req.body.organizationId\<close> the right operand is
  read only when the left one is falsy, and reading it from a missing body throws:
  the \<open>catch\<close> answers 500. The result is the response sent, or \<open>None\<close> for
  \<open>next()\<close>. The middleware calls no storage method, and \<open>registerRoutes\<close>
  mounts it on no route.
\<close>

definition validateOrganizationAccess ::
  "string option \<Rightarrow> string option \<Rightarrow> string option option \<Rightarrow> response option" where
  "validateOrganizationAccess sub paramsOrgId reqBody =
     (let userId = sub in
      case (if falsy paramsOrgId
            then (case reqBody of None \<Rightarrow> Threw | Some organizationId \<Rightarrow> Ret organizationId)
            else Ret paramsOrgId) of
        Threw \<Rightarrow> Some (respond 500 ''Access validation failed'')
      | Ret orgId \<Rightarrow>
          if falsy userId then Some (respond 401 ''Authentication required'')
          else if falsy orgId then Some (respond 400 ''Organization ID required'')
          else None)"

text \<open>
  The organization ids are \<open>uuid\<close> columns: 36 characters, hyphens at positions 8,
  13, 18 and 23, hexadecimal digits elsewhere.
\<close>

definition isHexDigit :: "char \<Rightarrow> bool" where
  "isHexDigit ch = (ch \<in> set ''0123456789abcdefABCDEF'')"

definition isUuid :: "string \<Rightarrow> bool" where
  "isUuid s =
     (length s = 36 \<and>
      list_all (\<lambda>i. if i \<in> {8, 13, 18, 23} then s ! i = CHR ''-'' else isHexDigit (s ! i))
        [0 ..< 36])"

section \<open>Example data\<close>

text \<open>
  A small world for the worked examples: two organizations; alice owns the first and
  has a deactivated admin membership in the second; bob is editor, carol viewer and
  erin admin of the second; mallory is a member of none. \<open>withMembers\<close> is a
  world with the member table replaced.
\<close>

definition demoMembers :: "organization_member list" where
  "demoMembers =
     [\<lparr>m_id = ''m1'', m_organizationId = Some ''org1'', m_userId = Some ''alice'',
       m_role = ''owner'', m_isActive = Some True\<rparr>,
      \<lparr>m_id = ''m2'', m_organizationId = Some ''org2'', m_userId = Some ''alice'',
       m_role = ''admin'', m_isActive = Some False\<rparr>,
      \<lparr>m_id = ''m3'', m_organizationId = Some ''org2'', m_userId = Some ''bob'',
       m_role = ''editor'', m_isActive = Some True\<rparr>,
      \<lparr>m_id = ''m4'', m_organizationId = Some ''org2'', m_userId = Some ''carol'',
       m_role = ''viewer'', m_isActive = Some True\<rparr>,
      \<lparr>m_id = ''m5'', m_organizationId = Some ''org2'', m_userId = Some ''erin'',
       m_role = ''admin'', m_isActive = Some True\<rparr>]"

definition demoCustomers :: "customer list" where
  "demoCustomers =
     [\<lparr>c_id = ''c1'', c_organizationId = Some ''org1'', c_name = ''Dana'', c_email = None,
       c_isActive = Some True, c_createdAt = 1, c_updatedAt = 1\<rparr>,
      \<lparr>c_id = ''c2'', c_organizationId = Some ''org2'', c_name = ''Eli'', c_email = None,
       c_isActive = Some True, c_createdAt = 2, c_updatedAt = 2\<rparr>]"

definition demoDb :: database where
  "demoDb =
     \<lparr>organizations = [\<lparr>o_id = ''org1'', o_name = ''Acme Meats''\<rparr>,
                       \<lparr>o_id = ''org2'', o_name = ''Bravo Beef''\<rparr>],
      organizationMembers = demoMembers,
      species = [],
      customers = demoCustomers,
      processingRecords = [],
      cutInstructions = [],
      inventoryItems = [],
      invoices = []\<rparr>"

definition demoWorld :: world where
  "demoWorld = \<lparr>db = demoDb, faults = [], trace = [], now = 10\<rparr>"

definition newCustomer :: "string option \<Rightarrow> insert_customer" where
  "newCustomer orgId =
     \<lparr>ic_organizationId = orgId, ic_name = ''Finn'', ic_email = None, ic_isActive = None\<rparr>"

definition newProcessingRecord :: "string option \<Rightarrow> insert_processing_record" where
  "newProcessingRecord orgId =
     \<lparr>ipr_organizationId = orgId, ipr_processingDate = 20, ipr_totalRetailWeight = None\<rparr>"

definition newInventoryItem :: "string option \<Rightarrow> insert_inventory_item" where
  "newInventoryItem orgId =
     \<lparr>iii_organizationId = orgId, iii_name = ''Ribeye'', iii_isActive = None\<rparr>"

definition newInvoice :: "string option \<Rightarrow> insert_invoice" where
  "newInvoice orgId = \<lparr>iinv_organizationId = orgId, iinv_total = 12500, iinv_status = None\<rparr>"

definition newCutInstruction :: "string option \<Rightarrow> insert_cut_instruction" where
  "newCutInstruction orgId = \<lparr>ici_organizationId = orgId, ici_name = ''Standard beef''\<rparr>"

definition newSpecies :: insert_species where
  "newSpecies =
     \<lparr>is_id = None, is_name = ''Bison'', is_category = ''game'', is_isActive = None\<rparr>"

definition renameTo :: "string \<Rightarrow> customer_patch" where
  "renameTo n = \<lparr>p_organizationId = None, p_name = Some n, p_email = None, p_isActive = None\<rparr>"

definition moveTo :: "string \<Rightarrow> customer_patch" where
  "moveTo orgId =
     \<lparr>p_organizationId = Some (Some orgId), p_name = None, p_email = None, p_isActive = None\<rparr>"

definition withMembers :: "organization_member list \<Rightarrow> world \<Rightarrow> world" where
  "withMembers ms w = w\<lparr>db := (db w)\<lparr>organizationMembers := ms\<rparr>\<rparr>"

section \<open>Facts about the storage layer\<close>

lemma sqlEq_Some [simp]: "sqlEq (Some x) (Some y) = (x = y)"
  by (simp add: sqlEq_def)

lemma sqlEq_None [simp]: "sqlEq None b = False" "sqlEq a None = False"
  by (simp_all add: sqlEq_def split: option.splits)

lemma logged_simps [simp]:
  "db (logged c w) = db w"
  "now (logged c w) = now w"
  "trace (logged c w) = trace w @ [c]"
  "faults (logged c w) = drop 1 (faults w)"
  by (simp_all add: logged_def)

lemma rejectsAt_logged [simp]: "rejectsAt n (logged c w) = rejectsAt (Suc n) w"
  by (auto simp: rejectsAt_def)

lemma rejectsAt_db_update [simp]: "rejectsAt n (w\<lparr>db := d\<rparr>) = rejectsAt n w"
  by (simp add: rejectsAt_def)

lemma noFaults_rejectsAt [simp]: "noFaults w \<Longrightarrow> \<not> rejectsAt n w"
  unfolding noFaults_def rejectsAt_def by (metis nth_mem)

lemma noFaults_logged [simp]: "noFaults w \<Longrightarrow> noFaults (logged c w)"
  by (auto simp: noFaults_def dest: in_set_dropD)

lemma noFaults_db_update [simp]: "noFaults (w\<lparr>db := d\<rparr>) = noFaults w"
  by (simp add: noFaults_def)

text \<open>Each storage method as one equation: the outcome, and the world it leaves.\<close>

lemma getUserRole_eq:
  "getUserRole u g w =
     (if rejectsAt 0 w then Threw else Ret (selectUserRole u g (organizationMembers (db w))),
      logged (GetUserRole u g) w)"
  by (simp add: getUserRole_def attempt_def)

lemma getCustomer_eq:
  "getCustomer i w =
     (if rejectsAt 0 w then Threw else Ret (selectCustomer i (customers (db w))),
      logged (GetCustomer i) w)"
  by (simp add: getCustomer_def attempt_def)

lemma getUserOrganizations_eq:
  "getUserOrganizations u w =
     (if rejectsAt 0 w then Threw
      else Ret (selectUserOrganizations u (organizations (db w)) (organizationMembers (db w))),
      logged (GetUserOrganizations u) w)"
  by (simp add: getUserOrganizations_def attempt_def)

lemmas storage_defs =
  getOrganization_def createSpecies_def getCustomers_def createCustomer_def
  updateCustomer_def deleteCustomer_def getProcessingRecords_def createProcessingRecord_def
  getCutInstructions_def createCutInstruction_def getInventoryItems_def
  createInventoryItem_def getInvoices_def createInvoice_def getDashboardMetrics_def
  attempt_def

subsection \<open>Role lookup\<close>

lemma selectUserRole_None:
  "\<not> (\<exists>m\<in>set ms. activeMemberOf u g m) \<Longrightarrow> selectUserRole u g ms = None"
  by (simp add: selectUserRole_def filter_empty_conv[THEN iffD2])

lemma selectUserRole_Some:
  assumes "selectUserRole u g ms = Some r"
  shows "\<exists>m\<in>set ms. activeMemberOf u g m \<and> m_role m = r"
proof (cases "filter (activeMemberOf u g) ms")
  case Nil
  with assms show ?thesis by (simp add: selectUserRole_def)
next
  case (Cons m rest)
  then have "m \<in> set (filter (activeMemberOf u g) ms)" by simp
  then have "m \<in> set ms" "activeMemberOf u g m" by simp_all
  moreover from assms Cons have "m_role m = r"
    by (simp add: selectUserRole_def split: if_splits)
  ultimately show ?thesis by blast
qed

lemma selectUserRole_not_empty: "selectUserRole u g ms \<noteq> Some []"
  by (simp add: selectUserRole_def split: list.splits)

lemma falsy_selectUserRole:
  "falsy (selectUserRole u g ms) = (selectUserRole u g ms = None)"
  using selectUserRole_not_empty [of u g ms]
  by (cases "selectUserRole u g ms") (simp_all add: falsy_def)

lemma selectUserRole_drop_inactive:
  "m_isActive m \<noteq> Some True \<Longrightarrow> selectUserRole u g (xs @ m # ys) = selectUserRole u g (xs @ ys)"
  by (cases "m_isActive m") (simp_all add: selectUserRole_def activeMemberOf_def)

lemma selectUserRole_keyed:
  "selectUserRole u g ms =
     selectUserRole u g (filter (\<lambda>m. m_userId m = Some u \<and> m_organizationId m = g) ms)"
proof -
  have "filter (activeMemberOf u g)
          (filter (\<lambda>m. m_userId m = Some u \<and> m_organizationId m = g) ms) =
        filter (activeMemberOf u g) ms"
    by (induction ms) (auto simp: activeMemberOf_def sqlEq_def split: option.splits)
  then show ?thesis
    by (simp add: selectUserRole_def)
qed

lemma writeRoles_iff:
  "(falsy role \<or> \<not> includesRole [''owner'', ''admin'', ''editor''] role) =
     (role \<notin> {Some ''owner'', Some ''admin'', Some ''editor''})"
  by (cases role) (auto simp: falsy_def includesRole_def)

section \<open>Facts about the routes\<close>

subsection \<open>Without a role the handler answers 403 and stops\<close>


lemma getOrganizationHandler_denied:
  "\<not> rejectsAt 0 w \<Longrightarrow> selectUserRole u (Some g) (organizationMembers (db w)) = None \<Longrightarrow>
   getOrganizationHandler u g w = (respond 403 ''Access denied'', logged (GetUserRole u (Some g)) w)"
  by (simp add: getOrganizationHandler_def getUserRole_eq falsy_def)

lemma getDashboardHandler_denied:
  "\<not> rejectsAt 0 w \<Longrightarrow> selectUserRole u (Some g) (organizationMembers (db w)) = None \<Longrightarrow>
   getDashboardHandler u g w = (respond 403 ''Access denied'', logged (GetUserRole u (Some g)) w)"
  by (simp add: getDashboardHandler_def getUserRole_eq falsy_def)

lemma getCustomersHandler_denied:
  "\<not> rejectsAt 0 w \<Longrightarrow> selectUserRole u (Some g) (organizationMembers (db w)) = None \<Longrightarrow>
   getCustomersHandler u g w = (respond 403 ''Access denied'', logged (GetUserRole u (Some g)) w)"
  by (simp add: getCustomersHandler_def getUserRole_eq falsy_def)

lemma getProcessingRecordsHandler_denied:
  "\<not> rejectsAt 0 w \<Longrightarrow> selectUserRole u (Some g) (organizationMembers (db w)) = None \<Longrightarrow>
   getProcessingRecordsHandler u g w = (respond 403 ''Access denied'', logged (GetUserRole u (Some g)) w)"
  by (simp add: getProcessingRecordsHandler_def getUserRole_eq falsy_def)

lemma getInventoryHandler_denied:
  "\<not> rejectsAt 0 w \<Longrightarrow> selectUserRole u (Some g) (organizationMembers (db w)) = None \<Longrightarrow>
   getInventoryHandler u g w = (respond 403 ''Access denied'', logged (GetUserRole u (Some g)) w)"
  by (simp add: getInventoryHandler_def getUserRole_eq falsy_def)

lemma getInvoicesHandler_denied:
  "\<not> rejectsAt 0 w \<Longrightarrow> selectUserRole u (Some g) (organizationMembers (db w)) = None \<Longrightarrow>
   getInvoicesHandler u g w = (respond 403 ''Access denied'', logged (GetUserRole u (Some g)) w)"
  by (simp add: getInvoicesHandler_def getUserRole_eq falsy_def)

lemma getCutInstructionsHandler_denied:
  "\<not> rejectsAt 0 w \<Longrightarrow> selectUserRole u (Some g) (organizationMembers (db w)) = None \<Longrightarrow>
   getCutInstructionsHandler u g w = (respond 403 ''Access denied'', logged (GetUserRole u (Some g)) w)"
  by (simp add: getCutInstructionsHandler_def getUserRole_eq falsy_def)

lemma postCustomersHandler_denied:
  "\<not> rejectsAt 0 w \<Longrightarrow>
   selectUserRole u (ic_organizationId d) (organizationMembers (db w)) \<notin> {Some ''owner'', Some ''admin'', Some ''editor''} \<Longrightarrow>
   postCustomersHandler u (Some d) nid w = (respond 403 ''Access denied'', logged (GetUserRole u (ic_organizationId d)) w)"
  by (simp add: postCustomersHandler_def getUserRole_eq writeRoles_iff)

lemma postProcessingRecordsHandler_denied:
  "\<not> rejectsAt 0 w \<Longrightarrow>
   selectUserRole u (ipr_organizationId d) (organizationMembers (db w)) \<notin> {Some ''owner'', Some ''admin'', Some ''editor''} \<Longrightarrow>
   postProcessingRecordsHandler u (Some d) nid w = (respond 403 ''Access denied'', logged (GetUserRole u (ipr_organizationId d)) w)"
  by (simp add: postProcessingRecordsHandler_def getUserRole_eq writeRoles_iff)

lemma postInventoryHandler_denied:
  "\<not> rejectsAt 0 w \<Longrightarrow>
   selectUserRole u (iii_organizationId d) (organizationMembers (db w)) \<notin> {Some ''owner'', Some ''admin'', Some ''editor''} \<Longrightarrow>
   postInventoryHandler u (Some d) nid w = (respond 403 ''Access denied'', logged (GetUserRole u (iii_organizationId d)) w)"
  by (simp add: postInventoryHandler_def getUserRole_eq writeRoles_iff)

lemma postInvoicesHandler_denied:
  "\<not> rejectsAt 0 w \<Longrightarrow>
   selectUserRole u (iinv_organizationId d) (organizationMembers (db w)) \<notin> {Some ''owner'', Some ''admin'', Some ''editor''} \<Longrightarrow>
   postInvoicesHandler u (Some d) nid w = (respond 403 ''Access denied'', logged (GetUserRole u (iinv_organizationId d)) w)"
  by (simp add: postInvoicesHandler_def getUserRole_eq writeRoles_iff)

lemma postCutInstructionsHandler_denied:
  "\<not> rejectsAt 0 w \<Longrightarrow>
   selectUserRole u (ici_organizationId d) (organizationMembers (db w)) \<notin> {Some ''owner'', Some ''admin'', Some ''editor''} \<Longrightarrow>
   postCutInstructionsHandler u (Some d) nid w = (respond 403 ''Access denied'', logged (GetUserRole u (ici_organizationId d)) w)"
  by (simp add: postCutInstructionsHandler_def getUserRole_eq writeRoles_iff)

lemma putCustomerHandler_denied:
  "\<not> rejectsAt 0 w \<Longrightarrow> \<not> rejectsAt 1 w \<Longrightarrow>
   selectCustomer cid (customers (db w)) = Some c \<Longrightarrow>
   selectUserRole u (c_organizationId c) (organizationMembers (db w)) \<notin> {Some ''owner'', Some ''admin'', Some ''editor''} \<Longrightarrow>
   putCustomerHandler u cid (Some p) w =
     (respond 403 ''Access denied'',
      logged (GetUserRole u (c_organizationId c)) (logged (GetCustomer cid) w))"
  by (simp add: putCustomerHandler_def getCustomer_eq getUserRole_eq writeRoles_iff)

lemma deleteCustomerHandler_denied:
  "\<not> rejectsAt 0 w \<Longrightarrow> \<not> rejectsAt 1 w \<Longrightarrow>
   selectCustomer cid (customers (db w)) = Some c \<Longrightarrow>
   selectUserRole u (c_organizationId c) (organizationMembers (db w)) \<notin> {Some ''owner'', Some ''admin'', Some ''editor''} \<Longrightarrow>
   deleteCustomerHandler u cid w =
     (respond 403 ''Access denied'',
      logged (GetUserRole u (c_organizationId c)) (logged (GetCustomer cid) w))"
  by (simp add: deleteCustomerHandler_def getCustomer_eq getUserRole_eq writeRoles_iff)

subsection \<open>A rejected role lookup ends in the catch branch\<close>

lemma getOrganizationHandler_fault:
  "rejectsAt 0 w \<Longrightarrow>
   getOrganizationHandler u g w = (respond 500 ''Failed to fetch organization'', logged (GetUserRole u (Some g)) w)"
  by (simp add: getOrganizationHandler_def getUserRole_eq)

lemma getDashboardHandler_fault:
  "rejectsAt 0 w \<Longrightarrow>
   getDashboardHandler u g w = (respond 500 ''Failed to fetch dashboard metrics'', logged (GetUserRole u (Some g)) w)"
  by (simp add: getDashboardHandler_def getUserRole_eq)

lemma getCustomersHandler_fault:
  "rejectsAt 0 w \<Longrightarrow>
   getCustomersHandler u g w = (respond 500 ''Failed to fetch customers'', logged (GetUserRole u (Some g)) w)"
  by (simp add: getCustomersHandler_def getUserRole_eq)

lemma getProcessingRecordsHandler_fault:
  "rejectsAt 0 w \<Longrightarrow>
   getProcessingRecordsHandler u g w = (respond 500 ''Failed to fetch processing records'', logged (GetUserRole u (Some g)) w)"
  by (simp add: getProcessingRecordsHandler_def getUserRole_eq)

lemma getInventoryHandler_fault:
  "rejectsAt 0 w \<Longrightarrow>
   getInventoryHandler u g w = (respond 500 ''Failed to fetch inventory items'', logged (GetUserRole u (Some g)) w)"
  by (simp add: getInventoryHandler_def getUserRole_eq)

lemma getInvoicesHandler_fault:
  "rejectsAt 0 w \<Longrightarrow>
   getInvoicesHandler u g w = (respond 500 ''Failed to fetch invoices'', logged (GetUserRole u (Some g)) w)"
  by (simp add: getInvoicesHandler_def getUserRole_eq)

lemma getCutInstructionsHandler_fault:
  "rejectsAt 0 w \<Longrightarrow>
   getCutInstructionsHandler u g w = (respond 500 ''Failed to fetch cut instructions'', logged (GetUserRole u (Some g)) w)"
  by (simp add: getCutInstructionsHandler_def getUserRole_eq)

lemma postCustomersHandler_fault:
  "rejectsAt 0 w \<Longrightarrow>
   postCustomersHandler u (Some d) nid w = (respond 500 ''Failed to create customer'', logged (GetUserRole u (ic_organizationId d)) w)"
  by (simp add: postCustomersHandler_def getUserRole_eq)

lemma postProcessingRecordsHandler_fault:
  "rejectsAt 0 w \<Longrightarrow>
   postProcessingRecordsHandler u (Some d) nid w = (respond 500 ''Failed to create processing record'', logged (GetUserRole u (ipr_organizationId d)) w)"
  by (simp add: postProcessingRecordsHandler_def getUserRole_eq)

lemma postInventoryHandler_fault:
  "rejectsAt 0 w \<Longrightarrow>
   postInventoryHandler u (Some d) nid w = (respond 500 ''Failed to create inventory item'', logged (GetUserRole u (iii_organizationId d)) w)"
  by (simp add: postInventoryHandler_def getUserRole_eq)

lemma postInvoicesHandler_fault:
  "rejectsAt 0 w \<Longrightarrow>
   postInvoicesHandler u (Some d) nid w = (respond 500 ''Failed to create invoice'', logged (GetUserRole u (iinv_organizationId d)) w)"
  by (simp add: postInvoicesHandler_def getUserRole_eq)

lemma postCutInstructionsHandler_fault:
  "rejectsAt 0 w \<Longrightarrow>
   postCutInstructionsHandler u (Some d) nid w = (respond 500 ''Failed to create cut instruction'', logged (GetUserRole u (ici_organizationId d)) w)"
  by (simp add: postCutInstructionsHandler_def getUserRole_eq)

lemma putCustomerHandler_fault:
  "\<not> rejectsAt 0 w \<Longrightarrow> rejectsAt 1 w \<Longrightarrow>
   selectCustomer cid (customers (db w)) = Some c \<Longrightarrow>
   putCustomerHandler u cid (Some p) w =
     (respond 500 ''Failed to update customer'',
      logged (GetUserRole u (c_organizationId c)) (logged (GetCustomer cid) w))"
  by (simp add: putCustomerHandler_def getCustomer_eq getUserRole_eq)

lemma deleteCustomerHandler_fault:
  "\<not> rejectsAt 0 w \<Longrightarrow> rejectsAt 1 w \<Longrightarrow>
   selectCustomer cid (customers (db w)) = Some c \<Longrightarrow>
   deleteCustomerHandler u cid w =
     (respond 500 ''Failed to delete customer'',
      logged (GetUserRole u (c_organizationId c)) (logged (GetCustomer cid) w))"
  by (simp add: deleteCustomerHandler_def getCustomer_eq getUserRole_eq)

subsection \<open>With a write role and a store that answers, the mutation goes through\<close>

lemma postCustomersHandler_allowed:
  "noFaults w \<Longrightarrow>
   selectUserRole u (ic_organizationId d) (organizationMembers (db w)) \<in> {Some ''owner'', Some ''admin'', Some ''editor''} \<Longrightarrow>
   status (fst (postCustomersHandler u (Some d) nid w)) = 200"
  by (simp add: postCustomersHandler_def getUserRole_eq writeRoles_iff storage_defs json_def Let_def)

lemma postProcessingRecordsHandler_allowed:
  "noFaults w \<Longrightarrow>
   selectUserRole u (ipr_organizationId d) (organizationMembers (db w)) \<in> {Some ''owner'', Some ''admin'', Some ''editor''} \<Longrightarrow>
   status (fst (postProcessingRecordsHandler u (Some d) nid w)) = 200"
  by (simp add: postProcessingRecordsHandler_def getUserRole_eq writeRoles_iff storage_defs json_def Let_def)

lemma postInventoryHandler_allowed:
  "noFaults w \<Longrightarrow>
   selectUserRole u (iii_organizationId d) (organizationMembers (db w)) \<in> {Some ''owner'', Some ''admin'', Some ''editor''} \<Longrightarrow>
   status (fst (postInventoryHandler u (Some d) nid w)) = 200"
  by (simp add: postInventoryHandler_def getUserRole_eq writeRoles_iff storage_defs json_def Let_def)

lemma postInvoicesHandler_allowed:
  "noFaults w \<Longrightarrow>
   selectUserRole u (iinv_organizationId d) (organizationMembers (db w)) \<in> {Some ''owner'', Some ''admin'', Some ''editor''} \<Longrightarrow>
   status (fst (postInvoicesHandler u (Some d) nid w)) = 200"
  by (simp add: postInvoicesHandler_def getUserRole_eq writeRoles_iff storage_defs json_def Let_def)

lemma postCutInstructionsHandler_allowed:
  "noFaults w \<Longrightarrow>
   selectUserRole u (ici_organizationId d) (organizationMembers (db w)) \<in> {Some ''owner'', Some ''admin'', Some ''editor''} \<Longrightarrow>
   status (fst (postCutInstructionsHandler u (Some d) nid w)) = 200"
  by (simp add: postCutInstructionsHandler_def getUserRole_eq writeRoles_iff storage_defs json_def Let_def)

lemma putCustomerHandler_allowed:
  "noFaults w \<Longrightarrow> selectCustomer cid (customers (db w)) = Some c \<Longrightarrow>
   selectUserRole u (c_organizationId c) (organizationMembers (db w)) \<in> {Some ''owner'', Some ''admin'', Some ''editor''} \<Longrightarrow>
   status (fst (putCustomerHandler u cid (Some p) w)) = 200"
  by (simp add: putCustomerHandler_def getCustomer_eq getUserRole_eq writeRoles_iff
      storage_defs json_def Let_def)

lemma deleteCustomerHandler_allowed:
  "noFaults w \<Longrightarrow> selectCustomer cid (customers (db w)) = Some c \<Longrightarrow>
   selectUserRole u (c_organizationId c) (organizationMembers (db w)) \<in> {Some ''owner'', Some ''admin'', Some ''editor''} \<Longrightarrow>
   status (fst (deleteCustomerHandler u cid w)) = 200"
  by (simp add: deleteCustomerHandler_def getCustomer_eq getUserRole_eq writeRoles_iff
      storage_defs json_def Let_def)

subsection \<open>The statuses a handler can send\<close>

lemma getOrganizationHandler_status:
  "status (fst (getOrganizationHandler u g w)) \<in> {200, 403, 404, 500}"
  by (simp add: getOrganizationHandler_def getUserRole_eq storage_defs respond_def json_def
      split: option.splits)

lemma getDashboardHandler_status:
  "status (fst (getDashboardHandler u g w)) \<in> {200, 403, 404, 500}"
  by (simp add: getDashboardHandler_def getUserRole_eq storage_defs respond_def json_def
      split: option.splits)

lemma getCustomersHandler_status:
  "status (fst (getCustomersHandler u g w)) \<in> {200, 403, 404, 500}"
  by (simp add: getCustomersHandler_def getUserRole_eq storage_defs respond_def json_def
      split: option.splits)

lemma getProcessingRecordsHandler_status:
  "status (fst (getProcessingRecordsHandler u g w)) \<in> {200, 403, 404, 500}"
  by (simp add: getProcessingRecordsHandler_def getUserRole_eq storage_defs respond_def json_def
      split: option.splits)

lemma getInventoryHandler_status:
  "status (fst (getInventoryHandler u g w)) \<in> {200, 403, 404, 500}"
  by (simp add: getInventoryHandler_def getUserRole_eq storage_defs respond_def json_def
      split: option.splits)

lemma getInvoicesHandler_status:
  "status (fst (getInvoicesHandler u g w)) \<in> {200, 403, 404, 500}"
  by (simp add: getInvoicesHandler_def getUserRole_eq storage_defs respond_def json_def
      split: option.splits)

lemma getCutInstructionsHandler_status:
  "status (fst (getCutInstructionsHandler u g w)) \<in> {200, 403, 404, 500}"
  by (simp add: getCutInstructionsHandler_def getUserRole_eq storage_defs respond_def json_def
      split: option.splits)

lemma postCustomersHandler_status:
  "status (fst (postCustomersHandler u parsed nid w)) \<in> {200, 403, 404, 500}"
  by (simp add: postCustomersHandler_def getUserRole_eq storage_defs respond_def json_def Let_def
      split: option.splits)

lemma postProcessingRecordsHandler_status:
  "status (fst (postProcessingRecordsHandler u parsed nid w)) \<in> {200, 403, 404, 500}"
  by (simp add: postProcessingRecordsHandler_def getUserRole_eq storage_defs respond_def json_def Let_def
      split: option.splits)

lemma postInventoryHandler_status:
  "status (fst (postInventoryHandler u parsed nid w)) \<in> {200, 403, 404, 500}"
  by (simp add: postInventoryHandler_def getUserRole_eq storage_defs respond_def json_def Let_def
      split: option.splits)

lemma postInvoicesHandler_status:
  "status (fst (postInvoicesHandler u parsed nid w)) \<in> {200, 403, 404, 500}"
  by (simp add: postInvoicesHandler_def getUserRole_eq storage_defs respond_def json_def Let_def
      split: option.splits)

lemma postCutInstructionsHandler_status:
  "status (fst (postCutInstructionsHandler u parsed nid w)) \<in> {200, 403, 404, 500}"
  by (simp add: postCutInstructionsHandler_def getUserRole_eq storage_defs respond_def json_def Let_def
      split: option.splits)

lemma putCustomerHandler_status:
  "status (fst (putCustomerHandler u cid parsed w)) \<in> {200, 403, 404, 500}"
  by (simp add: putCustomerHandler_def getCustomer_eq getUserRole_eq storage_defs
      respond_def json_def Let_def split: option.splits)

lemma deleteCustomerHandler_status:
  "status (fst (deleteCustomerHandler u cid w)) \<in> {200, 403, 404, 500}"
  by (simp add: deleteCustomerHandler_def getCustomer_eq getUserRole_eq storage_defs
      respond_def json_def Let_def split: option.splits)


subsection \<open>The role checks of species creation\<close>

lemma promiseAll_Ret: "promiseAll rs = Ret xs \<Longrightarrow> rs = map Ret xs"
proof (induction rs arbitrary: xs)
  case Nil
  then show ?case by simp
next
  case (Cons r rs)
  then show ?case by (cases r) (auto split: result.splits)
qed

lemma promiseAll_map_Ret [simp]: "promiseAll (map Ret xs) = Ret xs"
  by (induction xs) simp_all

lemma promiseAll_Threw: "Threw \<in> set rs \<Longrightarrow> promiseAll rs = Threw"
proof (induction rs)
  case Nil
  then show ?case by simp
next
  case (Cons r rs)
  then show ?case by (cases r) (auto split: result.splits)
qed

lemma roleChecks_Cons:
  "roleChecks u (org # orgs) w =
     ((if rejectsAt 0 w then Threw
       else Ret (selectUserRole u (Some (o_id org)) (organizationMembers (db w))
                 \<in> {Some ''owner'', Some ''admin''}))
        # fst (roleChecks u orgs (logged (GetUserRole u (Some (o_id org))) w)),
      snd (roleChecks u orgs (logged (GetUserRole u (Some (o_id org))) w)))"
  by (simp add: getUserRole_eq split: prod.splits)

lemma roleChecks_db [simp]: "db (snd (roleChecks u orgs w)) = db w"
  by (induction orgs arbitrary: w) (simp_all add: roleChecks_Cons del: roleChecks.simps(2))

lemma roleChecks_noFaults:
  "noFaults w \<Longrightarrow> noFaults (snd (roleChecks u orgs w))"
  by (induction orgs arbitrary: w) (simp_all add: roleChecks_Cons del: roleChecks.simps(2))

lemma roleChecks_answers:
  "noFaults w \<Longrightarrow>
   fst (roleChecks u orgs w) =
     map (\<lambda>org. Ret (selectUserRole u (Some (o_id org)) (organizationMembers (db w))
                       \<in> {Some ''owner'', Some ''admin''})) orgs"
  by (induction orgs arbitrary: w) (simp_all add: roleChecks_Cons del: roleChecks.simps(2))

lemma roleChecks_Ret_True:
  "Ret True \<in> set (fst (roleChecks u orgs w)) \<Longrightarrow>
   \<exists>org\<in>set orgs. selectUserRole u (Some (o_id org)) (organizationMembers (db w))
       \<in> {Some ''owner'', Some ''admin''}"
proof (induction orgs arbitrary: w)
  case Nil
  then show ?case by simp
next
  case (Cons org orgs)
  let ?w1 = "logged (GetUserRole u (Some (o_id org))) w"
  from Cons.prems consider
      (head) "selectUserRole u (Some (o_id org)) (organizationMembers (db w))
                \<in> {Some ''owner'', Some ''admin''}"
    | (tail) "Ret True \<in> set (fst (roleChecks u orgs ?w1))"
    by (auto simp: roleChecks_Cons simp del: roleChecks.simps(2) split: if_splits)
  then show ?case
  proof cases
    case head
    then show ?thesis by simp
  next
    case tail
    from Cons.IH [OF tail] show ?thesis by simp
  qed
qed

lemma roleChecks_trace:
  "CreateSpecies \<notin> set (trace w) \<Longrightarrow> CreateSpecies \<notin> set (trace (snd (roleChecks u orgs w)))"
  by (induction orgs arbitrary: w) (simp_all add: roleChecks_Cons del: roleChecks.simps(2))

lemma roleChecks_Threw:
  "i < length orgs \<Longrightarrow> rejectsAt i w \<Longrightarrow> Threw \<in> set (fst (roleChecks u orgs w))"
proof (induction orgs arbitrary: i w)
  case Nil
  then show ?case by simp
next
  case (Cons org orgs)
  show ?case
  proof (cases i)
    case 0
    with Cons.prems show ?thesis
      by (simp add: roleChecks_Cons del: roleChecks.simps(2))
  next
    case (Suc j)
    with Cons.prems have "j < length orgs"
      and "rejectsAt j (logged (GetUserRole u (Some (o_id org))) w)" by simp_all
    then have "Threw \<in> set (fst (roleChecks u orgs (logged (GetUserRole u (Some (o_id org))) w)))"
      by (rule Cons.IH)
    then show ?thesis
      by (simp add: roleChecks_Cons del: roleChecks.simps(2))
  qed
qed

lemma postSpeciesHandler_eq:
  "postSpeciesHandler u (Some sd) nid w =
     (if rejectsAt 0 w
      then (respond 500 ''Failed to create species'', logged (GetUserOrganizations u) w)
      else
        (let orgs = selectUserOrganizations u (organizations (db w)) (organizationMembers (db w));
             checks = roleChecks u orgs (logged (GetUserOrganizations u) w)
         in case promiseAll (fst checks) of
              Threw \<Rightarrow> (respond 500 ''Failed to create species'', snd checks)
            | Ret hasAdminRole \<Rightarrow>
                if length orgs = 0 \<or> \<not> list_ex (\<lambda>b. b) hasAdminRole
                then (respond 403
                        ''Access denied. Only organization owners and admins can create species.'',
                      snd checks)
                else (case createSpecies sd nid (snd checks) of
                        (Threw, w3) \<Rightarrow> (respond 500 ''Failed to create species'', w3)
                      | (Ret row, w3) \<Rightarrow> (json (SpeciesJ row), w3))))"
  by (simp add: postSpeciesHandler_def getUserOrganizations_eq Let_def case_prod_beta)

subsection \<open>The first storage call of a handler\<close>

lemma getOrganizationHandler_first_call:
  "\<exists>rest. trace (snd (getOrganizationHandler u g w)) = trace w @ GetUserRole u (Some g) # rest"
  by (simp add: getOrganizationHandler_def getUserRole_eq storage_defs Let_def split: option.splits)

lemma getDashboardHandler_first_call:
  "\<exists>rest. trace (snd (getDashboardHandler u g w)) = trace w @ GetUserRole u (Some g) # rest"
  by (simp add: getDashboardHandler_def getUserRole_eq storage_defs Let_def split: option.splits)

lemma getCustomersHandler_first_call:
  "\<exists>rest. trace (snd (getCustomersHandler u g w)) = trace w @ GetUserRole u (Some g) # rest"
  by (simp add: getCustomersHandler_def getUserRole_eq storage_defs Let_def split: option.splits)

lemma getProcessingRecordsHandler_first_call:
  "\<exists>rest. trace (snd (getProcessingRecordsHandler u g w)) = trace w @ GetUserRole u (Some g) # rest"
  by (simp add: getProcessingRecordsHandler_def getUserRole_eq storage_defs Let_def split: option.splits)

lemma getInventoryHandler_first_call:
  "\<exists>rest. trace (snd (getInventoryHandler u g w)) = trace w @ GetUserRole u (Some g) # rest"
  by (simp add: getInventoryHandler_def getUserRole_eq storage_defs Let_def split: option.splits)

lemma getInvoicesHandler_first_call:
  "\<exists>rest. trace (snd (getInvoicesHandler u g w)) = trace w @ GetUserRole u (Some g) # rest"
  by (simp add: getInvoicesHandler_def getUserRole_eq storage_defs Let_def split: option.splits)

lemma getCutInstructionsHandler_first_call:
  "\<exists>rest. trace (snd (getCutInstructionsHandler u g w)) = trace w @ GetUserRole u (Some g) # rest"
  by (simp add: getCutInstructionsHandler_def getUserRole_eq storage_defs Let_def split: option.splits)

lemma postCustomersHandler_first_call:
  "\<exists>rest. trace (snd (postCustomersHandler u (Some cd) nid w)) = trace w @ GetUserRole u (ic_organizationId cd) # rest"
  by (simp add: postCustomersHandler_def getUserRole_eq storage_defs Let_def split: option.splits)

lemma postProcessingRecordsHandler_first_call:
  "\<exists>rest. trace (snd (postProcessingRecordsHandler u (Some rd) nid w)) = trace w @ GetUserRole u (ipr_organizationId rd) # rest"
  by (simp add: postProcessingRecordsHandler_def getUserRole_eq storage_defs Let_def split: option.splits)

lemma postInventoryHandler_first_call:
  "\<exists>rest. trace (snd (postInventoryHandler u (Some itd) nid w)) = trace w @ GetUserRole u (iii_organizationId itd) # rest"
  by (simp add: postInventoryHandler_def getUserRole_eq storage_defs Let_def split: option.splits)

lemma postInvoicesHandler_first_call:
  "\<exists>rest. trace (snd (postInvoicesHandler u (Some ivd) nid w)) = trace w @ GetUserRole u (iinv_organizationId ivd) # rest"
  by (simp add: postInvoicesHandler_def getUserRole_eq storage_defs Let_def split: option.splits)

lemma postCutInstructionsHandler_first_call:
  "\<exists>rest. trace (snd (postCutInstructionsHandler u (Some cud) nid w)) = trace w @ GetUserRole u (ici_organizationId cud) # rest"
  by (simp add: postCutInstructionsHandler_def getUserRole_eq storage_defs Let_def split: option.splits)

lemma putCustomerHandler_first_call:
  "\<exists>rest. trace (snd (putCustomerHandler u k (Some p) w)) = trace w @ GetCustomer k # rest"
  by (simp add: putCustomerHandler_def getCustomer_eq getUserRole_eq storage_defs Let_def
      split: option.splits)

lemma deleteCustomerHandler_first_call:
  "\<exists>rest. trace (snd (deleteCustomerHandler u k w)) = trace w @ GetCustomer k # rest"
  by (simp add: deleteCustomerHandler_def getCustomer_eq getUserRole_eq storage_defs Let_def
      split: option.splits)

lemma postSpeciesHandler_status:
  "status (fst (postSpeciesHandler u parsed nid w)) \<in> {200, 403, 404, 500}"
proof (cases parsed)
  case None
  then show ?thesis by (simp add: postSpeciesHandler_def respond_def)
next
  case (Some sd)
  then show ?thesis
    by (simp add: postSpeciesHandler_eq createSpecies_def attempt_def respond_def json_def
        Let_def split: result.splits)
qed

lemma isUuid_example: "isUuid ''123e4567-e89b-12d3-a456-426614174000''"
  by (simp add: isUuid_def isHexDigit_def upt_rec)

subsection \<open>Who may create a species\<close>

lemma promiseAll_map: "promiseAll (map (\<lambda>x. Ret (f x)) xs) = Ret (map f xs)"
  by (induction xs) simp_all

lemma roleChecks_flags:
  "noFaults w \<Longrightarrow>
   promiseAll (fst (roleChecks u orgs w)) =
     Ret (map (\<lambda>org. selectUserRole u (Some (o_id org)) (organizationMembers (db w))
                       \<in> {Some ''owner'', Some ''admin''}) orgs)"
  by (simp add: roleChecks_answers promiseAll_map)

lemma activeMemberOf_fields:
  "activeMemberOf u (Some g) m \<Longrightarrow>
   m_userId m = Some u \<and> m_organizationId m = Some g \<and> m_isActive m = Some True"
  by (auto simp: activeMemberOf_def sqlEq_def split: option.splits)

lemma admin_role_has_row:
  assumes "selectUserRole u (Some g) ms \<in> {Some ''owner'', Some ''admin''}"
  shows "\<exists>m\<in>set ms. m_userId m = Some u \<and> m_organizationId m = Some g
           \<and> m_isActive m = Some True \<and> m_role m \<in> {''owner'', ''admin''}"
proof -
  from assms obtain r where r: "selectUserRole u (Some g) ms = Some r" "r \<in> {''owner'', ''admin''}"
    by auto
  from selectUserRole_Some [OF r(1)] obtain m where "m \<in> set ms" "activeMemberOf u (Some g) m"
    "m_role m = r" by blast
  with r(2) activeMemberOf_fields [of u g m] show ?thesis by blast
qed

lemma postSpeciesHandler_200:
  assumes "status (fst (postSpeciesHandler u parsed nid w)) = 200"
  shows "\<exists>m\<in>set (organizationMembers (db w)). m_userId m = Some u
           \<and> m_isActive m = Some True \<and> m_role m \<in> {''owner'', ''admin''}"
proof (cases parsed)
  case None
  with assms show ?thesis by (simp add: postSpeciesHandler_def respond_def)
next
  case (Some sd)
  let ?orgs = "selectUserOrganizations u (organizations (db w)) (organizationMembers (db w))"
  let ?checks = "roleChecks u ?orgs (logged (GetUserOrganizations u) w)"
  from assms Some obtain flags where flags: "promiseAll (fst ?checks) = Ret flags"
    and some: "list_ex (\<lambda>b. b) flags"
    by (auto simp: postSpeciesHandler_eq respond_def Let_def split: if_splits result.splits)
  from flags have "fst ?checks = map Ret flags" by (rule promiseAll_Ret)
  moreover from some have "True \<in> set flags" by (auto simp: list_ex_iff)
  ultimately have "Ret True \<in> set (fst ?checks)" by auto
  from roleChecks_Ret_True [OF this]
  have "\<exists>org\<in>set ?orgs. selectUserRole u (Some (o_id org)) (organizationMembers (db w))
           \<in> {Some ''owner'', Some ''admin''}"
    by simp
  then obtain org :: organization
    where "selectUserRole u (Some (o_id org)) (organizationMembers (db w))
             \<in> {Some ''owner'', Some ''admin''}"
    by blast
  from admin_role_has_row [OF this] show ?thesis by blast
qed

lemma postSpeciesHandler_not_admin:
  assumes nf: "noFaults w"
    and roles: "\<forall>m\<in>set (organizationMembers (db w)).
        m_userId m = Some u \<and> m_isActive m = Some True \<longrightarrow> m_role m \<notin> {''owner'', ''admin''}"
  shows "fst (postSpeciesHandler u (Some sd) nid w) =
      respond 403 ''Access denied. Only organization owners and admins can create species.''
    \<and> db (snd (postSpeciesHandler u (Some sd) nid w)) = db w"
proof -
  let ?ms = "organizationMembers (db w)"
  let ?orgs = "selectUserOrganizations u (organizations (db w)) ?ms"
  let ?w1 = "logged (GetUserOrganizations u) w"
  have no: "selectUserRole u (Some g) ?ms \<notin> {Some ''owner'', Some ''admin''}" for g
    using admin_role_has_row [of u g ?ms] roles by blast
  from nf have "noFaults ?w1" by simp
  from roleChecks_flags [OF this, of u ?orgs] no
  have flags: "promiseAll (fst (roleChecks u ?orgs ?w1)) = Ret (map (\<lambda>org. False) ?orgs)"
    by simp
  have none: "\<not> list_ex (\<lambda>b. b) (map (\<lambda>org. False) ?orgs)"
    by (simp add: list_ex_iff)
  from nf flags none show ?thesis
    by (simp add: postSpeciesHandler_eq Let_def)
qed

lemma postSpeciesHandler_admin:
  assumes nf: "noFaults w"
    and org: "org \<in> set (organizations (db w))"
    and role: "selectUserRole u (Some (o_id org)) (organizationMembers (db w))
                 \<in> {Some ''owner'', Some ''admin''}"
  shows "status (fst (postSpeciesHandler u (Some sd) nid w)) = 200"
proof -
  let ?ms = "organizationMembers (db w)"
  let ?orgs = "selectUserOrganizations u (organizations (db w)) ?ms"
  let ?w1 = "logged (GetUserOrganizations u) w"
  let ?flags = "map (\<lambda>org. selectUserRole u (Some (o_id org)) ?ms
                             \<in> {Some ''owner'', Some ''admin''}) ?orgs"
  from role obtain r where "selectUserRole u (Some (o_id org)) ?ms = Some r" by auto
  from selectUserRole_Some [OF this] obtain m
    where "m \<in> set ?ms" "activeMemberOf u (Some (o_id org)) m" by blast
  with org have listed: "org \<in> set ?orgs"
    by (auto simp: selectUserOrganizations_def)
  then have nonempty: "?orgs \<noteq> []" by auto
  from listed role have some: "list_ex (\<lambda>b. b) ?flags"
    by (auto simp: list_ex_iff)
  from nf have nf1: "noFaults ?w1" by simp
  have flags: "promiseAll (fst (roleChecks u ?orgs ?w1)) = Ret ?flags"
    using roleChecks_flags [OF nf1, of u ?orgs] by simp
  from nf1 have "noFaults (snd (roleChecks u ?orgs ?w1))"
    by (rule roleChecks_noFaults)
  then have ok: "\<not> rejectsAt 0 (snd (roleChecks u ?orgs ?w1))" by simp
  from nf flags nonempty some ok show ?thesis
    by (simp add: postSpeciesHandler_eq createSpecies_def attempt_def json_def Let_def)
qed

subsection \<open>Soft delete of a customer\<close>

lemma deleteCustomer_eq:
  "deleteCustomer k w =
     (if rejectsAt 0 w then (Threw, logged (DeleteCustomer k) w)
      else (Ret (),
            (logged (DeleteCustomer k) w)\<lparr>db := (db w)\<lparr>customers :=
               map (\<lambda>c. if c_id c = k then softDelete (now w) c else c) (customers (db w))\<rparr>\<rparr>))"
  by (simp add: deleteCustomer_def attempt_def cong: if_cong)

lemma softDelete_simps [simp]:
  "c_id (softDelete t c) = c_id c"
  "c_organizationId (softDelete t c) = c_organizationId c"
  "c_isActive (softDelete t c) = Some False"
  "c_updatedAt (softDelete t c) = t"
  by (simp_all add: softDelete_def)

lemma selectCustomer_soft:
  "selectCustomer k (map (\<lambda>c. if c_id c = k then softDelete t c else c) cs) =
     map_option (softDelete t) (selectCustomer k cs)"
  by (induction cs) (simp_all add: selectCustomer_def)

lemma selectCustomers_soft:
  assumes "x \<in> set (selectCustomers g (map (\<lambda>c. if c_id c = k then softDelete t c else c) cs))"
  shows "c_id x \<noteq> k"
proof
  assume k: "c_id x = k"
  from assms have active: "sqlEq (c_isActive x) (Some True)"
    by (simp add: selectCustomers_def)
  from assms have "x \<in> (\<lambda>c. if c_id c = k then softDelete t c else c) ` set cs"
    by (simp add: selectCustomers_def)
  then obtain y :: customer where x: "x = (if c_id y = k then softDelete t y else y)"
    and "y \<in> set cs"
    by (rule imageE)
  with k have "x = softDelete t y"
    by (cases "c_id y = k") simp_all
  with active show False
    by simp
qed

lemma ids_soft:
  "map c_id (map (\<lambda>c. if c_id c = k then softDelete t c else c) cs) = map c_id cs"
  by (induction cs) simp_all

subsection \<open>Replacing the member table\<close>

lemma logged_withMembers: "logged c (withMembers A w) = withMembers A (logged c w)"
  by (simp add: logged_def withMembers_def)

lemma withMembers_simps [simp]:
  "organizationMembers (db (withMembers A w)) = A"
  "organizations (db (withMembers A w)) = organizations (db w)"
  "rejectsAt n (withMembers A w) = rejectsAt n w"
  "withMembers A (withMembers B w) = withMembers A w"
  by (simp_all add: withMembers_def)

lemma roleChecks_withMembers:
  assumes "\<And>g. selectUserRole u g A = selectUserRole u g B"
  shows "roleChecks u orgs (withMembers A w) =
     (fst (roleChecks u orgs (withMembers B w)),
      withMembers A (snd (roleChecks u orgs (withMembers B w))))"
proof (induction orgs arbitrary: w)
  case Nil
  show ?case by simp
next
  case (Cons org orgs)
  show ?case
    by (simp add: roleChecks_Cons logged_withMembers Cons.IH assms del: roleChecks.simps(2))
qed

lemma postSpeciesHandler_withMembers:
  assumes role: "\<And>g. selectUserRole u g A = selectUserRole u g B"
    and orgs: "selectUserOrganizations u (organizations (db w)) A =
               selectUserOrganizations u (organizations (db w)) B"
  shows "fst (postSpeciesHandler u parsed nid (withMembers A w)) =
         fst (postSpeciesHandler u parsed nid (withMembers B w))"
proof (cases parsed)
  case None
  then show ?thesis by (simp add: postSpeciesHandler_def)
next
  case (Some sd)
  let ?orgs = "selectUserOrganizations u (organizations (db w)) B"
  have checks: "roleChecks u ?orgs (withMembers A (logged (GetUserOrganizations u) w)) =
     (fst (roleChecks u ?orgs (withMembers B (logged (GetUserOrganizations u) w))),
      withMembers A (snd (roleChecks u ?orgs (withMembers B (logged (GetUserOrganizations u) w)))))"
    using role by (rule roleChecks_withMembers)
  show ?thesis
    unfolding Some
    by (simp add: postSpeciesHandler_eq orgs logged_withMembers checks createSpecies_def
        attempt_def Let_def split: result.splits)
qed

subsection \<open>What the organization middleware lets pass\<close>

lemma validateOrganizationAccess_passes:
  "\<not> falsy sub \<Longrightarrow> \<not> falsy paramsOrgId \<Longrightarrow>
   validateOrganizationAccess sub paramsOrgId reqBody = None"
  by (simp add: validateOrganizationAccess_def)

lemma validateOrganizationAccess_no_body:
  "falsy paramsOrgId \<Longrightarrow>
   validateOrganizationAccess sub paramsOrgId None = Some (respond 500 ''Access validation failed'')"
  by (simp add: validateOrganizationAccess_def)

lemma validateOrganizationAccess_400:
  "(validateOrganizationAccess sub paramsOrgId reqBody = Some (respond 400 ''Organization ID required''))
     = (\<not> falsy sub \<and> falsy paramsOrgId \<and> (\<exists>b. reqBody = Some b \<and> falsy b))"
  by (cases reqBody) (auto simp: validateOrganizationAccess_def respond_def)

subsection \<open>An update writes the organization of the body\<close>

lemma applyPatch_id [simp]: "c_id (applyPatch p t c) = c_id c"
  by (simp add: applyPatch_def)

lemma selectCustomer_patched:
  "selectCustomer k (map (\<lambda>c. if c_id c = k then applyPatch p t c else c) cs) =
     map_option (applyPatch p t) (selectCustomer k cs)"
  by (induction cs) (simp_all add: selectCustomer_def)

lemma updateCustomer_eq:
  "updateCustomer k p w =
     (if rejectsAt 0 w then (Threw, logged (UpdateCustomer k) w)
      else (Ret (map_option (applyPatch p (now w)) (selectCustomer k (customers (db w)))),
            (logged (UpdateCustomer k) w)\<lparr>db := (db w)\<lparr>customers :=
               map (\<lambda>c. if c_id c = k then applyPatch p (now w) c else c) (customers (db w))\<rparr>\<rparr>))"
  by (simp add: updateCustomer_def attempt_def Let_def selectCustomer_patched cong: if_cong)

lemma putCustomerHandler_moves:
  assumes nf: "noFaults w"
    and found: "selectCustomer k (customers (db w)) = Some c"
    and role: "selectUserRole u (c_organizationId c) (organizationMembers (db w))
                 \<in> {Some ''owner'', Some ''admin'', Some ''editor''}"
    and body: "p_organizationId p = Some g"
  shows "status (fst (putCustomerHandler u k (Some p) w)) = 200
    \<and> trace (snd (putCustomerHandler u k (Some p) w)) =
        trace w @ [GetCustomer k, GetUserRole u (c_organizationId c), UpdateCustomer k]
    \<and> map_option c_organizationId
         (selectCustomer k (customers (db (snd (putCustomerHandler u k (Some p) w))))) = Some g"
proof -
  from nf have r: "\<not> rejectsAt 0 w" "\<not> rejectsAt 1 w" "\<not> rejectsAt 2 w"
    by simp_all
  from role have ok: "\<not> (falsy (selectUserRole u (c_organizationId c) (organizationMembers (db w)))
      \<or> \<not> includesRole [''owner'', ''admin'', ''editor'']
            (selectUserRole u (c_organizationId c) (organizationMembers (db w))))"
    by (simp only: writeRoles_iff) simp
  from r found ok body show ?thesis
    by (simp add: putCustomerHandler_def getCustomer_eq getUserRole_eq updateCustomer_eq
        selectCustomer_patched json_def applyPatch_def numeral_2_eq_2)
qed

subsection \<open>No role, no access: all organization-scoped routes at once\<close>

lemma no_role_denied:
  assumes none: "selectUserRole P (Some O2) (organizationMembers (db w)) = None"
    and r0: "\<not> rejectsAt 0 w"
  shows "getOrganizationHandler P O2 w =
           (respond 403 ''Access denied'', logged (GetUserRole P (Some O2)) w)
       \<and> getDashboardHandler P O2 w =
           (respond 403 ''Access denied'', logged (GetUserRole P (Some O2)) w)
       \<and> getCustomersHandler P O2 w =
           (respond 403 ''Access denied'', logged (GetUserRole P (Some O2)) w)
       \<and> getProcessingRecordsHandler P O2 w =
           (respond 403 ''Access denied'', logged (GetUserRole P (Some O2)) w)
       \<and> getInventoryHandler P O2 w =
           (respond 403 ''Access denied'', logged (GetUserRole P (Some O2)) w)
       \<and> getInvoicesHandler P O2 w =
           (respond 403 ''Access denied'', logged (GetUserRole P (Some O2)) w)
       \<and> getCutInstructionsHandler P O2 w =
           (respond 403 ''Access denied'', logged (GetUserRole P (Some O2)) w)
       \<and> (ic_organizationId cd = Some O2 \<longrightarrow>
           postCustomersHandler P (Some cd) nid w =
             (respond 403 ''Access denied'', logged (GetUserRole P (Some O2)) w))
       \<and> (ipr_organizationId rd = Some O2 \<longrightarrow>
           postProcessingRecordsHandler P (Some rd) nid w =
             (respond 403 ''Access denied'', logged (GetUserRole P (Some O2)) w))
       \<and> (iii_organizationId itd = Some O2 \<longrightarrow>
           postInventoryHandler P (Some itd) nid w =
             (respond 403 ''Access denied'', logged (GetUserRole P (Some O2)) w))
       \<and> (iinv_organizationId ivd = Some O2 \<longrightarrow>
           postInvoicesHandler P (Some ivd) nid w =
             (respond 403 ''Access denied'', logged (GetUserRole P (Some O2)) w))
       \<and> (ici_organizationId cud = Some O2 \<longrightarrow>
           postCutInstructionsHandler P (Some cud) nid w =
             (respond 403 ''Access denied'', logged (GetUserRole P (Some O2)) w))
       \<and> (selectCustomer k (customers (db w)) = Some c \<and> c_organizationId c = Some O2
           \<and> \<not> rejectsAt 1 w \<longrightarrow>
           putCustomerHandler P k (Some p) w =
             (respond 403 ''Access denied'',
              logged (GetUserRole P (Some O2)) (logged (GetCustomer k) w)))
       \<and> (selectCustomer k (customers (db w)) = Some c \<and> c_organizationId c = Some O2
           \<and> \<not> rejectsAt 1 w \<longrightarrow>
           deleteCustomerHandler P k w =
             (respond 403 ''Access denied'',
              logged (GetUserRole P (Some O2)) (logged (GetCustomer k) w)))"
proof -
  have reads:
    "getOrganizationHandler P O2 w =
       (respond 403 ''Access denied'', logged (GetUserRole P (Some O2)) w)"
    "getDashboardHandler P O2 w =
       (respond 403 ''Access denied'', logged (GetUserRole P (Some O2)) w)"
    "getCustomersHandler P O2 w =
       (respond 403 ''Access denied'', logged (GetUserRole P (Some O2)) w)"
    "getProcessingRecordsHandler P O2 w =
       (respond 403 ''Access denied'', logged (GetUserRole P (Some O2)) w)"
    "getInventoryHandler P O2 w =
       (respond 403 ''Access denied'', logged (GetUserRole P (Some O2)) w)"
    "getInvoicesHandler P O2 w =
       (respond 403 ''Access denied'', logged (GetUserRole P (Some O2)) w)"
    "getCutInstructionsHandler P O2 w =
       (respond 403 ''Access denied'', logged (GetUserRole P (Some O2)) w)"
    using r0 none
    by (simp_all add: getOrganizationHandler_denied getDashboardHandler_denied
        getCustomersHandler_denied getProcessingRecordsHandler_denied
        getInventoryHandler_denied getInvoicesHandler_denied getCutInstructionsHandler_denied)
  have creates:
    "ic_organizationId cd = Some O2 \<longrightarrow> postCustomersHandler P (Some cd) nid w =
       (respond 403 ''Access denied'', logged (GetUserRole P (Some O2)) w)"
    "ipr_organizationId rd = Some O2 \<longrightarrow> postProcessingRecordsHandler P (Some rd) nid w =
       (respond 403 ''Access denied'', logged (GetUserRole P (Some O2)) w)"
    "iii_organizationId itd = Some O2 \<longrightarrow> postInventoryHandler P (Some itd) nid w =
       (respond 403 ''Access denied'', logged (GetUserRole P (Some O2)) w)"
    "iinv_organizationId ivd = Some O2 \<longrightarrow> postInvoicesHandler P (Some ivd) nid w =
       (respond 403 ''Access denied'', logged (GetUserRole P (Some O2)) w)"
    "ici_organizationId cud = Some O2 \<longrightarrow> postCutInstructionsHandler P (Some cud) nid w =
       (respond 403 ''Access denied'', logged (GetUserRole P (Some O2)) w)"
    using r0 none
    by (simp_all add: postCustomersHandler_denied postProcessingRecordsHandler_denied
        postInventoryHandler_denied postInvoicesHandler_denied postCutInstructionsHandler_denied)
  have put:
    "selectCustomer k (customers (db w)) = Some c \<and> c_organizationId c = Some O2
       \<and> \<not> rejectsAt 1 w \<longrightarrow>
     putCustomerHandler P k (Some p) w =
       (respond 403 ''Access denied'',
        logged (GetUserRole P (Some O2)) (logged (GetCustomer k) w))"
    using r0 none putCustomerHandler_denied [of w k c P p] by simp
  have del:
    "selectCustomer k (customers (db w)) = Some c \<and> c_organizationId c = Some O2
       \<and> \<not> rejectsAt 1 w \<longrightarrow>
     deleteCustomerHandler P k w =
       (respond 403 ''Access denied'',
        logged (GetUserRole P (Some O2)) (logged (GetCustomer k) w))"
    using r0 none deleteCustomerHandler_denied [of w k c P] by simp
  from reads creates put del show ?thesis by blast
qed

subsection \<open>Reading a decision off a response\<close>

lemma decision_iff:
  assumes "role \<notin> W \<Longrightarrow> r = respond 403 ''Access denied''"
    and "role \<in> W \<Longrightarrow> status r = 200"
  shows "(r = respond 403 ''Access denied'') = (role \<notin> W) \<and> (status r = 200) = (role \<in> W)"
proof (cases "role \<in> W")
  case True
  with assms(2) have "status r = 200" by simp
  then have "r \<noteq> respond 403 ''Access denied''" by (auto simp: respond_def)
  with True \<open>status r = 200\<close> show ?thesis by simp
next
  case False
  with assms(1) have "r = respond 403 ''Access denied''" by simp
  with False show ?thesis by (simp add: respond_def)
qed

section \<open>The claims\<close>

text \<open>
  C1 (tenant isolation: every operation that a principal asks against an
  organization in which it has no active membership is denied, whatever its role
  elsewhere). The customer update breaks it. In the example alice is owner of org1
  and has no active membership in org2, and the customer c1 belongs to org1. Her
  update of c1 with \<open>organizationId = org2\<close> in the body is authorized by the role
  lookup for org1 alone and answers 200; no role is looked up for org2; c1 is then
  stored under org2 and the customer listing of org2 contains it. The creation
  route, asked by the same principal for the same organization, answers 403.
\<close>

theorem update_moves_customer_across_organizations:
  "selectUserRole ''alice'' (Some ''org1'') (organizationMembers (db demoWorld)) = Some ''owner''
   \<and> selectUserRole ''alice'' (Some ''org2'') (organizationMembers (db demoWorld)) = None
   \<and> map c_organizationId (customers (db demoWorld)) = [Some ''org1'', Some ''org2'']
   \<and> status (fst (putCustomerHandler ''alice'' ''c1'' (Some (moveTo ''org2'')) demoWorld)) = 200
   \<and> trace (snd (putCustomerHandler ''alice'' ''c1'' (Some (moveTo ''org2'')) demoWorld))
       = [GetCustomer ''c1'', GetUserRole ''alice'' (Some ''org1''), UpdateCustomer ''c1'']
   \<and> map c_organizationId
        (customers (db (snd (putCustomerHandler ''alice'' ''c1'' (Some (moveTo ''org2'')) demoWorld))))
       = [Some ''org2'', Some ''org2'']
   \<and> map c_id (selectCustomers ''org2''
        (customers (db (snd (putCustomerHandler ''alice'' ''c1'' (Some (moveTo ''org2'')) demoWorld)))))
       = [''c2'', ''c1'']
   \<and> postCustomersHandler ''alice'' (Some (newCustomer (Some ''org2''))) ''n1'' demoWorld
       = (respond 403 ''Access denied'', logged (GetUserRole ''alice'' (Some ''org2'')) demoWorld)"
  by (simp add: putCustomerHandler_def postCustomersHandler_def getCustomer_eq getUserRole_eq
      updateCustomer_def attempt_def
      rejectsAt_def demoWorld_def demoDb_def demoMembers_def demoCustomers_def selectUserRole_def
      activeMemberOf_def selectCustomer_def selectCustomers_def falsy_def includesRole_def
      json_def moveTo_def newCustomer_def applyPatch_def Let_def)

text \<open>
  C2 (what customer authorization is evaluated against). Update and delete fetch the
  customer first and look the role up for the \<open>organizationId\<close> stored on the
  fetched row: the only role lookup in the trace is for that stored id, and the
  request is refused with 403 exactly when the role found for it is not owner, admin
  or editor, whatever organization id the body of the update carries. Creation looks
  the role up for the \<open>organizationId\<close> of the body, before \<open>createCustomer\<close>
  is called. So creating a customer for \<open>O2\<close> without an active membership in
  \<open>O2\<close> writes no row: the only storage call is the role lookup and the tables
  are unchanged, with 403 "Access denied" when the lookup answers (and 500 when
  it rejects).
\<close>

theorem customer_authorization_target:
  assumes "\<not> rejectsAt 0 w"
  shows "(selectCustomer k (customers (db w)) = Some c \<and> \<not> rejectsAt 1 w \<longrightarrow>
           (fst (putCustomerHandler u k (Some p) w) = respond 403 ''Access denied'')
             = (selectUserRole u (c_organizationId c) (organizationMembers (db w))
                  \<notin> {Some ''owner'', Some ''admin'', Some ''editor''})
           \<and> trace (snd (putCustomerHandler u k (Some p) w)) =
               trace w @ [GetCustomer k, GetUserRole u (c_organizationId c)]
                 @ (if selectUserRole u (c_organizationId c) (organizationMembers (db w))
                        \<in> {Some ''owner'', Some ''admin'', Some ''editor''}
                    then [UpdateCustomer k] else [])
           \<and> (fst (deleteCustomerHandler u k w) = respond 403 ''Access denied'')
             = (selectUserRole u (c_organizationId c) (organizationMembers (db w))
                  \<notin> {Some ''owner'', Some ''admin'', Some ''editor''})
           \<and> trace (snd (deleteCustomerHandler u k w)) =
               trace w @ [GetCustomer k, GetUserRole u (c_organizationId c)]
                 @ (if selectUserRole u (c_organizationId c) (organizationMembers (db w))
                        \<in> {Some ''owner'', Some ''admin'', Some ''editor''}
                    then [DeleteCustomer k] else []))
       \<and> (fst (postCustomersHandler u (Some d) nid w) = respond 403 ''Access denied'')
             = (selectUserRole u (ic_organizationId d) (organizationMembers (db w))
                  \<notin> {Some ''owner'', Some ''admin'', Some ''editor''})
       \<and> trace (snd (postCustomersHandler u (Some d) nid w)) =
               trace w @ [GetUserRole u (ic_organizationId d)]
                 @ (if selectUserRole u (ic_organizationId d) (organizationMembers (db w))
                        \<in> {Some ''owner'', Some ''admin'', Some ''editor''}
                    then [CreateCustomer (ic_organizationId d)] else [])
       \<and> (ic_organizationId d = Some O2
           \<and> \<not> (\<exists>m\<in>set (organizationMembers (db w')). activeMemberOf u (Some O2) m) \<longrightarrow>
           fst (postCustomersHandler u (Some d) nid w') =
             (if rejectsAt 0 w' then respond 500 ''Failed to create customer''
              else respond 403 ''Access denied'')
           \<and> trace (snd (postCustomersHandler u (Some d) nid w')) =
               trace w' @ [GetUserRole u (Some O2)]
           \<and> db (snd (postCustomersHandler u (Some d) nid w')) = db w')"
proof -
  have put:
    "selectCustomer k (customers (db w)) = Some c \<and> \<not> rejectsAt 1 w \<longrightarrow>
       (fst (putCustomerHandler u k (Some p) w) = respond 403 ''Access denied'')
         = (selectUserRole u (c_organizationId c) (organizationMembers (db w))
              \<notin> {Some ''owner'', Some ''admin'', Some ''editor''})
       \<and> trace (snd (putCustomerHandler u k (Some p) w)) =
           trace w @ [GetCustomer k, GetUserRole u (c_organizationId c)]
             @ (if selectUserRole u (c_organizationId c) (organizationMembers (db w))
                    \<in> {Some ''owner'', Some ''admin'', Some ''editor''}
                then [UpdateCustomer k] else [])"
    using assms
    by (simp add: putCustomerHandler_def getCustomer_eq getUserRole_eq writeRoles_iff
        updateCustomer_def attempt_def respond_def json_def Let_def)
  have del:
    "selectCustomer k (customers (db w)) = Some c \<and> \<not> rejectsAt 1 w \<longrightarrow>
       (fst (deleteCustomerHandler u k w) = respond 403 ''Access denied'')
         = (selectUserRole u (c_organizationId c) (organizationMembers (db w))
              \<notin> {Some ''owner'', Some ''admin'', Some ''editor''})
       \<and> trace (snd (deleteCustomerHandler u k w)) =
           trace w @ [GetCustomer k, GetUserRole u (c_organizationId c)]
             @ (if selectUserRole u (c_organizationId c) (organizationMembers (db w))
                    \<in> {Some ''owner'', Some ''admin'', Some ''editor''}
                then [DeleteCustomer k] else [])"
    using assms
    by (simp add: deleteCustomerHandler_def getCustomer_eq getUserRole_eq writeRoles_iff
        deleteCustomer_def attempt_def respond_def json_def Let_def)
  have post:
    "(fst (postCustomersHandler u (Some d) nid w) = respond 403 ''Access denied'')
       = (selectUserRole u (ic_organizationId d) (organizationMembers (db w))
            \<notin> {Some ''owner'', Some ''admin'', Some ''editor''})"
    "trace (snd (postCustomersHandler u (Some d) nid w)) =
       trace w @ [GetUserRole u (ic_organizationId d)]
         @ (if selectUserRole u (ic_organizationId d) (organizationMembers (db w))
                \<in> {Some ''owner'', Some ''admin'', Some ''editor''}
            then [CreateCustomer (ic_organizationId d)] else [])"
    using assms
    by (simp_all add: postCustomersHandler_def getUserRole_eq writeRoles_iff
        createCustomer_def attempt_def respond_def json_def Let_def)
  have other:
    "ic_organizationId d = Some O2
       \<and> \<not> (\<exists>m\<in>set (organizationMembers (db w')). activeMemberOf u (Some O2) m) \<longrightarrow>
     fst (postCustomersHandler u (Some d) nid w') =
       (if rejectsAt 0 w' then respond 500 ''Failed to create customer''
        else respond 403 ''Access denied'')
     \<and> trace (snd (postCustomersHandler u (Some d) nid w')) =
         trace w' @ [GetUserRole u (Some O2)]
     \<and> db (snd (postCustomersHandler u (Some d) nid w')) = db w'"
  proof (intro impI, elim conjE)
    assume org: "ic_organizationId d = Some O2"
      and "\<not> (\<exists>m\<in>set (organizationMembers (db w')). activeMemberOf u (Some O2) m)"
    then have none: "selectUserRole u (Some O2) (organizationMembers (db w')) = None"
      by (rule_tac selectUserRole_None)
    show "fst (postCustomersHandler u (Some d) nid w') =
       (if rejectsAt 0 w' then respond 500 ''Failed to create customer''
        else respond 403 ''Access denied'')
     \<and> trace (snd (postCustomersHandler u (Some d) nid w')) =
         trace w' @ [GetUserRole u (Some O2)]
     \<and> db (snd (postCustomersHandler u (Some d) nid w')) = db w'"
      using org none
      by (simp add: postCustomersHandler_def getUserRole_eq falsy_def)
  qed
  from put del post other show ?thesis by blast
qed

theorem customer_authorization_target_witness:
  "\<not> rejectsAt 0 demoWorld
   \<and> selectCustomer ''c2'' (customers (db demoWorld)) = Some (demoCustomers ! 1)
   \<and> fst (putCustomerHandler ''alice'' ''c2'' (Some (moveTo ''org1'')) demoWorld)
       = respond 403 ''Access denied''
   \<and> trace (snd (putCustomerHandler ''alice'' ''c2'' (Some (moveTo ''org1'')) demoWorld))
       = [GetCustomer ''c2'', GetUserRole ''alice'' (Some ''org2'')]
   \<and> fst (deleteCustomerHandler ''bob'' ''c2'' demoWorld) \<noteq> respond 403 ''Access denied''
   \<and> trace (snd (deleteCustomerHandler ''bob'' ''c2'' demoWorld))
       = [GetCustomer ''c2'', GetUserRole ''bob'' (Some ''org2''), DeleteCustomer ''c2'']
   \<and> fst (postCustomersHandler ''alice'' (Some (newCustomer (Some ''org2''))) ''n1'' demoWorld)
       = respond 403 ''Access denied''
   \<and> trace (snd (postCustomersHandler ''alice'' (Some (newCustomer (Some ''org2''))) ''n1'' demoWorld))
       = [GetUserRole ''alice'' (Some ''org2'')]
   \<and> db (snd (postCustomersHandler ''alice'' (Some (newCustomer (Some ''org2''))) ''n1'' demoWorld))
       = db demoWorld"
proof -
  have h: "\<not> rejectsAt 0 demoWorld" "\<not> rejectsAt 1 demoWorld"
    by (simp_all add: demoWorld_def rejectsAt_def)
  have c2: "selectCustomer ''c2'' (customers (db demoWorld)) = Some (demoCustomers ! 1)"
    "c_organizationId (demoCustomers ! 1) = Some ''org2''"
    by (simp_all add: demoWorld_def demoDb_def demoCustomers_def selectCustomer_def)
  have roles:
    "selectUserRole ''alice'' (Some ''org2'') (organizationMembers (db demoWorld)) = None"
    "selectUserRole ''bob'' (Some ''org2'') (organizationMembers (db demoWorld)) = Some ''editor''"
    "\<not> (\<exists>m\<in>set (organizationMembers (db demoWorld)). activeMemberOf ''alice'' (Some ''org2'') m)"
    by (simp_all add: demoWorld_def demoDb_def demoMembers_def selectUserRole_def
        activeMemberOf_def)
  have tr: "trace demoWorld = []" by (simp add: demoWorld_def)
  have org: "ic_organizationId (newCustomer (Some ''org2'')) = Some ''org2''"
    by (simp add: newCustomer_def)
  from h c2 roles tr org
    customer_authorization_target [OF h(1), of "''c2''" "demoCustomers ! 1" "''alice''"
      "moveTo ''org1''" "newCustomer (Some ''org2'')" "''n1''" "''org2''" demoWorld]
    customer_authorization_target [OF h(1), of "''c2''" "demoCustomers ! 1" "''bob''"
      "moveTo ''org1''" "newCustomer (Some ''org2'')" "''n1''" "''org2''" demoWorld]
  show ?thesis by simp
qed

text \<open>
  C3 (the write class). With a store that answers, each of the seven write routes
  (creation of a customer, a processing record, an inventory item, an invoice, a cut
  instruction; update and delete of an existing customer) answers 200 exactly when
  the role that \<open>getUserRole\<close> resolves for the target organization is owner,
  admin or editor, and answers 403 "Access denied" exactly when it is not (viewer,
  any other string, or no active membership).
\<close>

theorem write_requires_owner_admin_editor:
  assumes "noFaults w"
  shows "((fst (postCustomersHandler u (Some cd) nid w) = respond 403 ''Access denied'')
          = (selectUserRole u (ic_organizationId cd) (organizationMembers (db w))
               \<notin> {Some ''owner'', Some ''admin'', Some ''editor''})
        \<and> (status (fst (postCustomersHandler u (Some cd) nid w)) = 200)
          = (selectUserRole u (ic_organizationId cd) (organizationMembers (db w))
               \<in> {Some ''owner'', Some ''admin'', Some ''editor''}))
       \<and> ((fst (postProcessingRecordsHandler u (Some rd) nid w) = respond 403 ''Access denied'')
          = (selectUserRole u (ipr_organizationId rd) (organizationMembers (db w))
               \<notin> {Some ''owner'', Some ''admin'', Some ''editor''})
        \<and> (status (fst (postProcessingRecordsHandler u (Some rd) nid w)) = 200)
          = (selectUserRole u (ipr_organizationId rd) (organizationMembers (db w))
               \<in> {Some ''owner'', Some ''admin'', Some ''editor''}))
       \<and> ((fst (postInventoryHandler u (Some itd) nid w) = respond 403 ''Access denied'')
          = (selectUserRole u (iii_organizationId itd) (organizationMembers (db w))
               \<notin> {Some ''owner'', Some ''admin'', Some ''editor''})
        \<and> (status (fst (postInventoryHandler u (Some itd) nid w)) = 200)
          = (selectUserRole u (iii_organizationId itd) (organizationMembers (db w))
               \<in> {Some ''owner'', Some ''admin'', Some ''editor''}))
       \<and> ((fst (postInvoicesHandler u (Some ivd) nid w) = respond 403 ''Access denied'')
          = (selectUserRole u (iinv_organizationId ivd) (organizationMembers (db w))
               \<notin> {Some ''owner'', Some ''admin'', Some ''editor''})
        \<and> (status (fst (postInvoicesHandler u (Some ivd) nid w)) = 200)
          = (selectUserRole u (iinv_organizationId ivd) (organizationMembers (db w))
               \<in> {Some ''owner'', Some ''admin'', Some ''editor''}))
       \<and> ((fst (postCutInstructionsHandler u (Some cud) nid w) = respond 403 ''Access denied'')
          = (selectUserRole u (ici_organizationId cud) (organizationMembers (db w))
               \<notin> {Some ''owner'', Some ''admin'', Some ''editor''})
        \<and> (status (fst (postCutInstructionsHandler u (Some cud) nid w)) = 200)
          = (selectUserRole u (ici_organizationId cud) (organizationMembers (db w))
               \<in> {Some ''owner'', Some ''admin'', Some ''editor''}))
       \<and> (selectCustomer k (customers (db w)) = Some c \<longrightarrow>
           ((fst (putCustomerHandler u k (Some p) w) = respond 403 ''Access denied'')
              = (selectUserRole u (c_organizationId c) (organizationMembers (db w))
                   \<notin> {Some ''owner'', Some ''admin'', Some ''editor''})
            \<and> (status (fst (putCustomerHandler u k (Some p) w)) = 200)
              = (selectUserRole u (c_organizationId c) (organizationMembers (db w))
                   \<in> {Some ''owner'', Some ''admin'', Some ''editor''}))
           \<and> ((fst (deleteCustomerHandler u k w) = respond 403 ''Access denied'')
              = (selectUserRole u (c_organizationId c) (organizationMembers (db w))
                   \<notin> {Some ''owner'', Some ''admin'', Some ''editor''})
            \<and> (status (fst (deleteCustomerHandler u k w)) = 200)
              = (selectUserRole u (c_organizationId c) (organizationMembers (db w))
                   \<in> {Some ''owner'', Some ''admin'', Some ''editor''})))"
proof -
  have r0: "\<not> rejectsAt 0 w" and r1: "\<not> rejectsAt 1 w"
    using assms by simp_all
  have d_postCustomersHandler:
    "(fst (postCustomersHandler u (Some cd) nid w) = respond 403 ''Access denied'')
       = (selectUserRole u (ic_organizationId cd) (organizationMembers (db w))
            \<notin> {Some ''owner'', Some ''admin'', Some ''editor''})
     \<and> (status (fst (postCustomersHandler u (Some cd) nid w)) = 200)
       = (selectUserRole u (ic_organizationId cd) (organizationMembers (db w))
            \<in> {Some ''owner'', Some ''admin'', Some ''editor''})"
    using assms r0 postCustomersHandler_denied [of w u cd nid] postCustomersHandler_allowed [of w u cd nid]
    by (intro decision_iff) simp_all
  have d_postProcessingRecordsHandler:
    "(fst (postProcessingRecordsHandler u (Some rd) nid w) = respond 403 ''Access denied'')
       = (selectUserRole u (ipr_organizationId rd) (organizationMembers (db w))
            \<notin> {Some ''owner'', Some ''admin'', Some ''editor''})
     \<and> (status (fst (postProcessingRecordsHandler u (Some rd) nid w)) = 200)
       = (selectUserRole u (ipr_organizationId rd) (organizationMembers (db w))
            \<in> {Some ''owner'', Some ''admin'', Some ''editor''})"
    using assms r0 postProcessingRecordsHandler_denied [of w u rd nid] postProcessingRecordsHandler_allowed [of w u rd nid]
    by (intro decision_iff) simp_all
  have d_postInventoryHandler:
    "(fst (postInventoryHandler u (Some itd) nid w) = respond 403 ''Access denied'')
       = (selectUserRole u (iii_organizationId itd) (organizationMembers (db w))
            \<notin> {Some ''owner'', Some ''admin'', Some ''editor''})
     \<and> (status (fst (postInventoryHandler u (Some itd) nid w)) = 200)
       = (selectUserRole u (iii_organizationId itd) (organizationMembers (db w))
            \<in> {Some ''owner'', Some ''admin'', Some ''editor''})"
    using assms r0 postInventoryHandler_denied [of w u itd nid] postInventoryHandler_allowed [of w u itd nid]
    by (intro decision_iff) simp_all
  have d_postInvoicesHandler:
    "(fst (postInvoicesHandler u (Some ivd) nid w) = respond 403 ''Access denied'')
       = (selectUserRole u (iinv_organizationId ivd) (organizationMembers (db w))
            \<notin> {Some ''owner'', Some ''admin'', Some ''editor''})
     \<and> (status (fst (postInvoicesHandler u (Some ivd) nid w)) = 200)
       = (selectUserRole u (iinv_organizationId ivd) (organizationMembers (db w))
            \<in> {Some ''owner'', Some ''admin'', Some ''editor''})"
    using assms r0 postInvoicesHandler_denied [of w u ivd nid] postInvoicesHandler_allowed [of w u ivd nid]
    by (intro decision_iff) simp_all
  have d_postCutInstructionsHandler:
    "(fst (postCutInstructionsHandler u (Some cud) nid w) = respond 403 ''Access denied'')
       = (selectUserRole u (ici_organizationId cud) (organizationMembers (db w))
            \<notin> {Some ''owner'', Some ''admin'', Some ''editor''})
     \<and> (status (fst (postCutInstructionsHandler u (Some cud) nid w)) = 200)
       = (selectUserRole u (ici_organizationId cud) (organizationMembers (db w))
            \<in> {Some ''owner'', Some ''admin'', Some ''editor''})"
    using assms r0 postCutInstructionsHandler_denied [of w u cud nid] postCutInstructionsHandler_allowed [of w u cud nid]
    by (intro decision_iff) simp_all
  have pd:
    "selectCustomer k (customers (db w)) = Some c \<longrightarrow>
           ((fst (putCustomerHandler u k (Some p) w) = respond 403 ''Access denied'')
              = (selectUserRole u (c_organizationId c) (organizationMembers (db w))
                   \<notin> {Some ''owner'', Some ''admin'', Some ''editor''})
            \<and> (status (fst (putCustomerHandler u k (Some p) w)) = 200)
              = (selectUserRole u (c_organizationId c) (organizationMembers (db w))
                   \<in> {Some ''owner'', Some ''admin'', Some ''editor''}))
           \<and> ((fst (deleteCustomerHandler u k w) = respond 403 ''Access denied'')
              = (selectUserRole u (c_organizationId c) (organizationMembers (db w))
                   \<notin> {Some ''owner'', Some ''admin'', Some ''editor''})
            \<and> (status (fst (deleteCustomerHandler u k w)) = 200)
              = (selectUserRole u (c_organizationId c) (organizationMembers (db w))
                   \<in> {Some ''owner'', Some ''admin'', Some ''editor''}))"
  proof
    assume found: "selectCustomer k (customers (db w)) = Some c"
    have p: "((fst (putCustomerHandler u k (Some p) w) = respond 403 ''Access denied'')
           = (selectUserRole u (c_organizationId c) (organizationMembers (db w))
                \<notin> {Some ''owner'', Some ''admin'', Some ''editor''})
         \<and> (status (fst (putCustomerHandler u k (Some p) w)) = 200)
           = (selectUserRole u (c_organizationId c) (organizationMembers (db w))
                \<in> {Some ''owner'', Some ''admin'', Some ''editor''}))"
      using assms r0 r1 found putCustomerHandler_denied [of w k c u p]
        putCustomerHandler_allowed [of w k c u p]
      by (intro decision_iff) simp_all
    have d: "((fst (deleteCustomerHandler u k w) = respond 403 ''Access denied'')
           = (selectUserRole u (c_organizationId c) (organizationMembers (db w))
                \<notin> {Some ''owner'', Some ''admin'', Some ''editor''})
         \<and> (status (fst (deleteCustomerHandler u k w)) = 200)
           = (selectUserRole u (c_organizationId c) (organizationMembers (db w))
                \<in> {Some ''owner'', Some ''admin'', Some ''editor''}))"
      using assms r0 r1 found deleteCustomerHandler_denied [of w k c u]
        deleteCustomerHandler_allowed [of w k c u]
      by (intro decision_iff) simp_all
    from p d show "((fst (putCustomerHandler u k (Some p) w) = respond 403 ''Access denied'')
           = (selectUserRole u (c_organizationId c) (organizationMembers (db w))
                \<notin> {Some ''owner'', Some ''admin'', Some ''editor''})
         \<and> (status (fst (putCustomerHandler u k (Some p) w)) = 200)
           = (selectUserRole u (c_organizationId c) (organizationMembers (db w))
                \<in> {Some ''owner'', Some ''admin'', Some ''editor''}))
        \<and> ((fst (deleteCustomerHandler u k w) = respond 403 ''Access denied'')
           = (selectUserRole u (c_organizationId c) (organizationMembers (db w))
                \<notin> {Some ''owner'', Some ''admin'', Some ''editor''})
         \<and> (status (fst (deleteCustomerHandler u k w)) = 200)
           = (selectUserRole u (c_organizationId c) (organizationMembers (db w))
                \<in> {Some ''owner'', Some ''admin'', Some ''editor''}))"
      by (rule conjI)
  qed
  show ?thesis
    by (rule conjI [OF d_postCustomersHandler conjI [OF d_postProcessingRecordsHandler conjI [OF d_postInventoryHandler conjI [OF d_postInvoicesHandler conjI [OF d_postCutInstructionsHandler pd]]]]])
qed

text \<open>The example: in org2, bob is an editor and carol a viewer.\<close>

theorem write_requires_owner_admin_editor_witness:
  "noFaults demoWorld
   \<and> selectUserRole ''bob'' (Some ''org2'') (organizationMembers (db demoWorld)) = Some ''editor''
   \<and> selectUserRole ''carol'' (Some ''org2'') (organizationMembers (db demoWorld)) = Some ''viewer''
   \<and> status (fst (postCustomersHandler ''bob'' (Some (newCustomer (Some ''org2''))) ''n1'' demoWorld)) = 200
   \<and> fst (postCustomersHandler ''carol'' (Some (newCustomer (Some ''org2''))) ''n1'' demoWorld) = respond 403 ''Access denied''
   \<and> status (fst (postProcessingRecordsHandler ''bob'' (Some (newProcessingRecord (Some ''org2''))) ''n1'' demoWorld)) = 200
   \<and> fst (postProcessingRecordsHandler ''carol'' (Some (newProcessingRecord (Some ''org2''))) ''n1'' demoWorld) = respond 403 ''Access denied''
   \<and> status (fst (postInventoryHandler ''bob'' (Some (newInventoryItem (Some ''org2''))) ''n1'' demoWorld)) = 200
   \<and> fst (postInventoryHandler ''carol'' (Some (newInventoryItem (Some ''org2''))) ''n1'' demoWorld) = respond 403 ''Access denied''
   \<and> status (fst (postInvoicesHandler ''bob'' (Some (newInvoice (Some ''org2''))) ''n1'' demoWorld)) = 200
   \<and> fst (postInvoicesHandler ''carol'' (Some (newInvoice (Some ''org2''))) ''n1'' demoWorld) = respond 403 ''Access denied''
   \<and> status (fst (postCutInstructionsHandler ''bob'' (Some (newCutInstruction (Some ''org2''))) ''n1'' demoWorld)) = 200
   \<and> fst (postCutInstructionsHandler ''carol'' (Some (newCutInstruction (Some ''org2''))) ''n1'' demoWorld) = respond 403 ''Access denied''
   \<and> status (fst (putCustomerHandler ''bob'' ''c2'' (Some (renameTo ''Eli B.'')) demoWorld)) = 200
   \<and> fst (putCustomerHandler ''carol'' ''c2'' (Some (renameTo ''Eli B.'')) demoWorld) = respond 403 ''Access denied''
   \<and> status (fst (deleteCustomerHandler ''bob'' ''c2'' demoWorld)) = 200
   \<and> fst (deleteCustomerHandler ''carol'' ''c2'' demoWorld) = respond 403 ''Access denied''"
proof -
  have h: "noFaults demoWorld"
    by (simp add: demoWorld_def noFaults_def)
  have c2: "selectCustomer ''c2'' (customers (db demoWorld)) = Some (demoCustomers ! 1)"
    "c_organizationId (demoCustomers ! 1) = Some ''org2''"
    by (simp_all add: demoWorld_def demoDb_def demoCustomers_def selectCustomer_def)
  have roles:
    "selectUserRole ''bob'' (Some ''org2'') (organizationMembers (db demoWorld)) = Some ''editor''"
    "selectUserRole ''carol'' (Some ''org2'') (organizationMembers (db demoWorld)) = Some ''viewer''"
    by (simp_all add: demoWorld_def demoDb_def demoMembers_def selectUserRole_def
        activeMemberOf_def)
  from h c2 roles
    write_requires_owner_admin_editor [OF h, of "''bob''" "newCustomer (Some ''org2'')" "''n1''"
      "newProcessingRecord (Some ''org2'')" "newInventoryItem (Some ''org2'')"
      "newInvoice (Some ''org2'')" "newCutInstruction (Some ''org2'')" "''c2''"
      "demoCustomers ! 1" "renameTo ''Eli B.''"]
    write_requires_owner_admin_editor [OF h, of "''carol''" "newCustomer (Some ''org2'')" "''n1''"
      "newProcessingRecord (Some ''org2'')" "newInventoryItem (Some ''org2'')"
      "newInvoice (Some ''org2'')" "newCutInstruction (Some ''org2'')" "''c2''"
      "demoCustomers ! 1" "renameTo ''Eli B.''"]
  show ?thesis
    by (simp add: newCustomer_def newProcessingRecord_def newInventoryItem_def
        newInvoice_def newCutInstruction_def)
qed

text \<open>
  C4 (an inactive membership is no membership). Let the member row \<open>m\<close> have
  \<open>isActive = false\<close>. Wherever \<open>m\<close> stands in the member table, the role lookup
  of any user and organization, the list of the organizations of any user, and the
  response of every organization-scoped route and of species creation are the same
  with \<open>m\<close> in the table as with \<open>m\<close> removed. And when every member row of the
  pair \<open>(P, O2)\<close> is inactive, \<open>getUserRole\<close> returns \<open>null\<close> and every
  organization-scoped route asked by \<open>P\<close> against \<open>O2\<close> answers 403 "Access
  denied", as it does for a pair with no row at all.
\<close>

theorem inactive_membership_is_no_membership:
  assumes "m_isActive m = Some False"
  shows "selectUserRole u g (xs @ m # ys) = selectUserRole u g (xs @ ys)
       \<and> selectUserOrganizations u os (xs @ m # ys) = selectUserOrganizations u os (xs @ ys)
       \<and> fst (getOrganizationHandler u g' (withMembers (xs @ m # ys) w)) =
         fst (getOrganizationHandler u g' (withMembers (xs @ ys) w))
       \<and> fst (getDashboardHandler u g' (withMembers (xs @ m # ys) w)) =
         fst (getDashboardHandler u g' (withMembers (xs @ ys) w))
       \<and> fst (getCustomersHandler u g' (withMembers (xs @ m # ys) w)) =
         fst (getCustomersHandler u g' (withMembers (xs @ ys) w))
       \<and> fst (getProcessingRecordsHandler u g' (withMembers (xs @ m # ys) w)) =
         fst (getProcessingRecordsHandler u g' (withMembers (xs @ ys) w))
       \<and> fst (getInventoryHandler u g' (withMembers (xs @ m # ys) w)) =
         fst (getInventoryHandler u g' (withMembers (xs @ ys) w))
       \<and> fst (getInvoicesHandler u g' (withMembers (xs @ m # ys) w)) =
         fst (getInvoicesHandler u g' (withMembers (xs @ ys) w))
       \<and> fst (getCutInstructionsHandler u g' (withMembers (xs @ m # ys) w)) =
         fst (getCutInstructionsHandler u g' (withMembers (xs @ ys) w))
       \<and> fst (postCustomersHandler u bcd nid' (withMembers (xs @ m # ys) w)) =
         fst (postCustomersHandler u bcd nid' (withMembers (xs @ ys) w))
       \<and> fst (postProcessingRecordsHandler u brd nid' (withMembers (xs @ m # ys) w)) =
         fst (postProcessingRecordsHandler u brd nid' (withMembers (xs @ ys) w))
       \<and> fst (postInventoryHandler u bitd nid' (withMembers (xs @ m # ys) w)) =
         fst (postInventoryHandler u bitd nid' (withMembers (xs @ ys) w))
       \<and> fst (postInvoicesHandler u bivd nid' (withMembers (xs @ m # ys) w)) =
         fst (postInvoicesHandler u bivd nid' (withMembers (xs @ ys) w))
       \<and> fst (postCutInstructionsHandler u bcud nid' (withMembers (xs @ m # ys) w)) =
         fst (postCutInstructionsHandler u bcud nid' (withMembers (xs @ ys) w))
       \<and> fst (putCustomerHandler u k' bp (withMembers (xs @ m # ys) w)) =
         fst (putCustomerHandler u k' bp (withMembers (xs @ ys) w))
       \<and> fst (deleteCustomerHandler u k' (withMembers (xs @ m # ys) w)) =
         fst (deleteCustomerHandler u k' (withMembers (xs @ ys) w))
       \<and> fst (postSpeciesHandler u bsd nid' (withMembers (xs @ m # ys) w)) =
         fst (postSpeciesHandler u bsd nid' (withMembers (xs @ ys) w))
       \<and> ((\<forall>r\<in>set (organizationMembers (db w2)).
              m_userId r = Some P \<and> m_organizationId r = Some O2 \<longrightarrow> m_isActive r = Some False)
           \<and> \<not> rejectsAt 0 w2 \<longrightarrow>
           getUserRole P (Some O2) w2 = (Ret None, logged (GetUserRole P (Some O2)) w2)
           \<and> getOrganizationHandler P O2 w2 =
               (respond 403 ''Access denied'', logged (GetUserRole P (Some O2)) w2)
           \<and> getDashboardHandler P O2 w2 =
               (respond 403 ''Access denied'', logged (GetUserRole P (Some O2)) w2)
           \<and> getCustomersHandler P O2 w2 =
               (respond 403 ''Access denied'', logged (GetUserRole P (Some O2)) w2)
           \<and> getProcessingRecordsHandler P O2 w2 =
               (respond 403 ''Access denied'', logged (GetUserRole P (Some O2)) w2)
           \<and> getInventoryHandler P O2 w2 =
               (respond 403 ''Access denied'', logged (GetUserRole P (Some O2)) w2)
           \<and> getInvoicesHandler P O2 w2 =
               (respond 403 ''Access denied'', logged (GetUserRole P (Some O2)) w2)
           \<and> getCutInstructionsHandler P O2 w2 =
               (respond 403 ''Access denied'', logged (GetUserRole P (Some O2)) w2)
           \<and> (ic_organizationId cd = Some O2 \<longrightarrow>
               postCustomersHandler P (Some cd) nid w2 =
                 (respond 403 ''Access denied'', logged (GetUserRole P (Some O2)) w2))
           \<and> (ipr_organizationId rd = Some O2 \<longrightarrow>
               postProcessingRecordsHandler P (Some rd) nid w2 =
                 (respond 403 ''Access denied'', logged (GetUserRole P (Some O2)) w2))
           \<and> (iii_organizationId itd = Some O2 \<longrightarrow>
               postInventoryHandler P (Some itd) nid w2 =
                 (respond 403 ''Access denied'', logged (GetUserRole P (Some O2)) w2))
           \<and> (iinv_organizationId ivd = Some O2 \<longrightarrow>
               postInvoicesHandler P (Some ivd) nid w2 =
                 (respond 403 ''Access denied'', logged (GetUserRole P (Some O2)) w2))
           \<and> (ici_organizationId cud = Some O2 \<longrightarrow>
               postCutInstructionsHandler P (Some cud) nid w2 =
                 (respond 403 ''Access denied'', logged (GetUserRole P (Some O2)) w2))
           \<and> (selectCustomer k (customers (db w2)) = Some c \<and> c_organizationId c = Some O2
               \<and> \<not> rejectsAt 1 w2 \<longrightarrow>
               putCustomerHandler P k (Some p) w2 =
                 (respond 403 ''Access denied'',
                  logged (GetUserRole P (Some O2)) (logged (GetCustomer k) w2)))
           \<and> (selectCustomer k (customers (db w2)) = Some c \<and> c_organizationId c = Some O2
               \<and> \<not> rejectsAt 1 w2 \<longrightarrow>
               deleteCustomerHandler P k w2 =
                 (respond 403 ''Access denied'',
                  logged (GetUserRole P (Some O2)) (logged (GetCustomer k) w2))))"
proof -
  from assms have inactive: "m_isActive m \<noteq> Some True" by simp
  have role: "\<And>u g. selectUserRole u g (xs @ m # ys) = selectUserRole u g (xs @ ys)"
    using inactive by (rule selectUserRole_drop_inactive)
  have orgs_all: "\<And>os. selectUserOrganizations u os (xs @ m # ys) = selectUserOrganizations u os (xs @ ys)"
    using assms by (simp add: selectUserOrganizations_def activeMemberOf_def)
  have orgs: "selectUserOrganizations u os (xs @ m # ys) = selectUserOrganizations u os (xs @ ys)"
    by (rule orgs_all)
    have e_getOrganizationHandler:
    "fst (getOrganizationHandler u g' (withMembers (xs @ m # ys) w)) =
         fst (getOrganizationHandler u g' (withMembers (xs @ ys) w))"
    by (simp add: getOrganizationHandler_def getUserRole_eq getCustomer_eq role storage_defs
        selectDashboardMetrics_def
        withMembers_def Let_def cong: if_cong split: option.splits)
  have e_getDashboardHandler:
    "fst (getDashboardHandler u g' (withMembers (xs @ m # ys) w)) =
         fst (getDashboardHandler u g' (withMembers (xs @ ys) w))"
    by (simp add: getDashboardHandler_def getUserRole_eq getCustomer_eq role storage_defs
        selectDashboardMetrics_def
        withMembers_def Let_def cong: if_cong split: option.splits)
  have e_getCustomersHandler:
    "fst (getCustomersHandler u g' (withMembers (xs @ m # ys) w)) =
         fst (getCustomersHandler u g' (withMembers (xs @ ys) w))"
    by (simp add: getCustomersHandler_def getUserRole_eq getCustomer_eq role storage_defs
        selectDashboardMetrics_def
        withMembers_def Let_def cong: if_cong split: option.splits)
  have e_getProcessingRecordsHandler:
    "fst (getProcessingRecordsHandler u g' (withMembers (xs @ m # ys) w)) =
         fst (getProcessingRecordsHandler u g' (withMembers (xs @ ys) w))"
    by (simp add: getProcessingRecordsHandler_def getUserRole_eq getCustomer_eq role storage_defs
        selectDashboardMetrics_def
        withMembers_def Let_def cong: if_cong split: option.splits)
  have e_getInventoryHandler:
    "fst (getInventoryHandler u g' (withMembers (xs @ m # ys) w)) =
         fst (getInventoryHandler u g' (withMembers (xs @ ys) w))"
    by (simp add: getInventoryHandler_def getUserRole_eq getCustomer_eq role storage_defs
        selectDashboardMetrics_def
        withMembers_def Let_def cong: if_cong split: option.splits)
  have e_getInvoicesHandler:
    "fst (getInvoicesHandler u g' (withMembers (xs @ m # ys) w)) =
         fst (getInvoicesHandler u g' (withMembers (xs @ ys) w))"
    by (simp add: getInvoicesHandler_def getUserRole_eq getCustomer_eq role storage_defs
        selectDashboardMetrics_def
        withMembers_def Let_def cong: if_cong split: option.splits)
  have e_getCutInstructionsHandler:
    "fst (getCutInstructionsHandler u g' (withMembers (xs @ m # ys) w)) =
         fst (getCutInstructionsHandler u g' (withMembers (xs @ ys) w))"
    by (simp add: getCutInstructionsHandler_def getUserRole_eq getCustomer_eq role storage_defs
        selectDashboardMetrics_def
        withMembers_def Let_def cong: if_cong split: option.splits)
  have e_postCustomersHandler:
    "fst (postCustomersHandler u bcd nid' (withMembers (xs @ m # ys) w)) =
         fst (postCustomersHandler u bcd nid' (withMembers (xs @ ys) w))"
    by (simp add: postCustomersHandler_def getUserRole_eq getCustomer_eq role storage_defs
        selectDashboardMetrics_def
        withMembers_def Let_def cong: if_cong split: option.splits)
  have e_postProcessingRecordsHandler:
    "fst (postProcessingRecordsHandler u brd nid' (withMembers (xs @ m # ys) w)) =
         fst (postProcessingRecordsHandler u brd nid' (withMembers (xs @ ys) w))"
    by (simp add: postProcessingRecordsHandler_def getUserRole_eq getCustomer_eq role storage_defs
        selectDashboardMetrics_def
        withMembers_def Let_def cong: if_cong split: option.splits)
  have e_postInventoryHandler:
    "fst (postInventoryHandler u bitd nid' (withMembers (xs @ m # ys) w)) =
         fst (postInventoryHandler u bitd nid' (withMembers (xs @ ys) w))"
    by (simp add: postInventoryHandler_def getUserRole_eq getCustomer_eq role storage_defs
        selectDashboardMetrics_def
        withMembers_def Let_def cong: if_cong split: option.splits)
  have e_postInvoicesHandler:
    "fst (postInvoicesHandler u bivd nid' (withMembers (xs @ m # ys) w)) =
         fst (postInvoicesHandler u bivd nid' (withMembers (xs @ ys) w))"
    by (simp add: postInvoicesHandler_def getUserRole_eq getCustomer_eq role storage_defs
        selectDashboardMetrics_def
        withMembers_def Let_def cong: if_cong split: option.splits)
  have e_postCutInstructionsHandler:
    "fst (postCutInstructionsHandler u bcud nid' (withMembers (xs @ m # ys) w)) =
         fst (postCutInstructionsHandler u bcud nid' (withMembers (xs @ ys) w))"
    by (simp add: postCutInstructionsHandler_def getUserRole_eq getCustomer_eq role storage_defs
        selectDashboardMetrics_def
        withMembers_def Let_def cong: if_cong split: option.splits)
  have e_putCustomerHandler:
    "fst (putCustomerHandler u k' bp (withMembers (xs @ m # ys) w)) =
         fst (putCustomerHandler u k' bp (withMembers (xs @ ys) w))"
    by (simp add: putCustomerHandler_def getUserRole_eq getCustomer_eq role storage_defs
        selectDashboardMetrics_def
        withMembers_def Let_def cong: if_cong split: option.splits)
  have e_deleteCustomerHandler:
    "fst (deleteCustomerHandler u k' (withMembers (xs @ m # ys) w)) =
         fst (deleteCustomerHandler u k' (withMembers (xs @ ys) w))"
    by (simp add: deleteCustomerHandler_def getUserRole_eq getCustomer_eq role storage_defs
        selectDashboardMetrics_def
        withMembers_def Let_def cong: if_cong split: option.splits)
  have e_postSpeciesHandler:
    "fst (postSpeciesHandler u bsd nid' (withMembers (xs @ m # ys) w)) =
         fst (postSpeciesHandler u bsd nid' (withMembers (xs @ ys) w))"
    using role by (rule postSpeciesHandler_withMembers) (simp add: orgs_all)
  have lone:
    "(\<forall>r\<in>set (organizationMembers (db w2)).
        m_userId r = Some P \<and> m_organizationId r = Some O2 \<longrightarrow> m_isActive r = Some False)
     \<and> \<not> rejectsAt 0 w2 \<longrightarrow>
     getUserRole P (Some O2) w2 = (Ret None, logged (GetUserRole P (Some O2)) w2)
     \<and> getOrganizationHandler P O2 w2 =
               (respond 403 ''Access denied'', logged (GetUserRole P (Some O2)) w2)
           \<and> getDashboardHandler P O2 w2 =
               (respond 403 ''Access denied'', logged (GetUserRole P (Some O2)) w2)
           \<and> getCustomersHandler P O2 w2 =
               (respond 403 ''Access denied'', logged (GetUserRole P (Some O2)) w2)
           \<and> getProcessingRecordsHandler P O2 w2 =
               (respond 403 ''Access denied'', logged (GetUserRole P (Some O2)) w2)
           \<and> getInventoryHandler P O2 w2 =
               (respond 403 ''Access denied'', logged (GetUserRole P (Some O2)) w2)
           \<and> getInvoicesHandler P O2 w2 =
               (respond 403 ''Access denied'', logged (GetUserRole P (Some O2)) w2)
           \<and> getCutInstructionsHandler P O2 w2 =
               (respond 403 ''Access denied'', logged (GetUserRole P (Some O2)) w2)
           \<and> (ic_organizationId cd = Some O2 \<longrightarrow>
               postCustomersHandler P (Some cd) nid w2 =
                 (respond 403 ''Access denied'', logged (GetUserRole P (Some O2)) w2))
           \<and> (ipr_organizationId rd = Some O2 \<longrightarrow>
               postProcessingRecordsHandler P (Some rd) nid w2 =
                 (respond 403 ''Access denied'', logged (GetUserRole P (Some O2)) w2))
           \<and> (iii_organizationId itd = Some O2 \<longrightarrow>
               postInventoryHandler P (Some itd) nid w2 =
                 (respond 403 ''Access denied'', logged (GetUserRole P (Some O2)) w2))
           \<and> (iinv_organizationId ivd = Some O2 \<longrightarrow>
               postInvoicesHandler P (Some ivd) nid w2 =
                 (respond 403 ''Access denied'', logged (GetUserRole P (Some O2)) w2))
           \<and> (ici_organizationId cud = Some O2 \<longrightarrow>
               postCutInstructionsHandler P (Some cud) nid w2 =
                 (respond 403 ''Access denied'', logged (GetUserRole P (Some O2)) w2))
           \<and> (selectCustomer k (customers (db w2)) = Some c \<and> c_organizationId c = Some O2
               \<and> \<not> rejectsAt 1 w2 \<longrightarrow>
               putCustomerHandler P k (Some p) w2 =
                 (respond 403 ''Access denied'',
                  logged (GetUserRole P (Some O2)) (logged (GetCustomer k) w2)))
           \<and> (selectCustomer k (customers (db w2)) = Some c \<and> c_organizationId c = Some O2
               \<and> \<not> rejectsAt 1 w2 \<longrightarrow>
               deleteCustomerHandler P k w2 =
                 (respond 403 ''Access denied'',
                  logged (GetUserRole P (Some O2)) (logged (GetCustomer k) w2)))"
  proof (intro impI, elim conjE)
    assume all: "\<forall>r\<in>set (organizationMembers (db w2)).
        m_userId r = Some P \<and> m_organizationId r = Some O2 \<longrightarrow> m_isActive r = Some False"
      and r0: "\<not> rejectsAt 0 w2"
    have "\<not> (\<exists>r\<in>set (organizationMembers (db w2)). activeMemberOf P (Some O2) r)"
    proof
      assume "\<exists>r\<in>set (organizationMembers (db w2)). activeMemberOf P (Some O2) r"
      then obtain r where r: "r \<in> set (organizationMembers (db w2))"
        and act: "activeMemberOf P (Some O2) r" by blast
      from act have "m_userId r = Some P" "m_organizationId r = Some O2" "m_isActive r = Some True"
        by (auto simp: activeMemberOf_def sqlEq_def split: option.splits)
      with all r show False by auto
    qed
    then have none: "selectUserRole P (Some O2) (organizationMembers (db w2)) = None"
      by (rule selectUserRole_None)
    from none r0 have "getUserRole P (Some O2) w2 = (Ret None, logged (GetUserRole P (Some O2)) w2)"
      by (simp add: getUserRole_eq)
    moreover note no_role_denied [OF none r0, of cd nid rd itd ivd cud k c p]
    ultimately show "getUserRole P (Some O2) w2 = (Ret None, logged (GetUserRole P (Some O2)) w2)
     \<and> getOrganizationHandler P O2 w2 =
               (respond 403 ''Access denied'', logged (GetUserRole P (Some O2)) w2)
           \<and> getDashboardHandler P O2 w2 =
               (respond 403 ''Access denied'', logged (GetUserRole P (Some O2)) w2)
           \<and> getCustomersHandler P O2 w2 =
               (respond 403 ''Access denied'', logged (GetUserRole P (Some O2)) w2)
           \<and> getProcessingRecordsHandler P O2 w2 =
               (respond 403 ''Access denied'', logged (GetUserRole P (Some O2)) w2)
           \<and> getInventoryHandler P O2 w2 =
               (respond 403 ''Access denied'', logged (GetUserRole P (Some O2)) w2)
           \<and> getInvoicesHandler P O2 w2 =
               (respond 403 ''Access denied'', logged (GetUserRole P (Some O2)) w2)
           \<and> getCutInstructionsHandler P O2 w2 =
               (respond 403 ''Access denied'', logged (GetUserRole P (Some O2)) w2)
           \<and> (ic_organizationId cd = Some O2 \<longrightarrow>
               postCustomersHandler P (Some cd) nid w2 =
                 (respond 403 ''Access denied'', logged (GetUserRole P (Some O2)) w2))
           \<and> (ipr_organizationId rd = Some O2 \<longrightarrow>
               postProcessingRecordsHandler P (Some rd) nid w2 =
                 (respond 403 ''Access denied'', logged (GetUserRole P (Some O2)) w2))
           \<and> (iii_organizationId itd = Some O2 \<longrightarrow>
               postInventoryHandler P (Some itd) nid w2 =
                 (respond 403 ''Access denied'', logged (GetUserRole P (Some O2)) w2))
           \<and> (iinv_organizationId ivd = Some O2 \<longrightarrow>
               postInvoicesHandler P (Some ivd) nid w2 =
                 (respond 403 ''Access denied'', logged (GetUserRole P (Some O2)) w2))
           \<and> (ici_organizationId cud = Some O2 \<longrightarrow>
               postCutInstructionsHandler P (Some cud) nid w2 =
                 (respond 403 ''Access denied'', logged (GetUserRole P (Some O2)) w2))
           \<and> (selectCustomer k (customers (db w2)) = Some c \<and> c_organizationId c = Some O2
               \<and> \<not> rejectsAt 1 w2 \<longrightarrow>
               putCustomerHandler P k (Some p) w2 =
                 (respond 403 ''Access denied'',
                  logged (GetUserRole P (Some O2)) (logged (GetCustomer k) w2)))
           \<and> (selectCustomer k (customers (db w2)) = Some c \<and> c_organizationId c = Some O2
               \<and> \<not> rejectsAt 1 w2 \<longrightarrow>
               deleteCustomerHandler P k w2 =
                 (respond 403 ''Access denied'',
                  logged (GetUserRole P (Some O2)) (logged (GetCustomer k) w2)))"
      by (rule conjI)
  qed
  show ?thesis
    by (rule conjI [OF role conjI [OF orgs conjI [OF e_getOrganizationHandler conjI [OF e_getDashboardHandler conjI [OF e_getCustomersHandler conjI [OF e_getProcessingRecordsHandler conjI [OF e_getInventoryHandler conjI [OF e_getInvoicesHandler conjI [OF e_getCutInstructionsHandler conjI [OF e_postCustomersHandler conjI [OF e_postProcessingRecordsHandler conjI [OF e_postInventoryHandler conjI [OF e_postInvoicesHandler conjI [OF e_postCutInstructionsHandler conjI [OF e_putCustomerHandler conjI [OF e_deleteCustomerHandler conjI [OF e_postSpeciesHandler lone]]]]]]]]]]]]]]]]])
qed

text \<open>
  The example: the second member row is alice's deactivated admin membership in org2.
\<close>

theorem inactive_membership_is_no_membership_witness:
  "m_isActive (demoMembers ! 1) = Some False
   \<and> m_role (demoMembers ! 1) = ''admin''
   \<and> selectUserRole ''alice'' (Some ''org2'') demoMembers
       = selectUserRole ''alice'' (Some ''org2'') (take 1 demoMembers @ drop 2 demoMembers)
   \<and> fst (getCustomersHandler ''alice'' ''org2'' (withMembers demoMembers demoWorld))
       = fst (getCustomersHandler ''alice'' ''org2''
               (withMembers (take 1 demoMembers @ drop 2 demoMembers) demoWorld))
   \<and> fst (postCustomersHandler ''alice'' (Some (newCustomer (Some ''org2''))) ''n1''
            (withMembers demoMembers demoWorld))
       = fst (postCustomersHandler ''alice'' (Some (newCustomer (Some ''org2''))) ''n1''
               (withMembers (take 1 demoMembers @ drop 2 demoMembers) demoWorld))
   \<and> getUserRole ''alice'' (Some ''org2'') demoWorld
       = (Ret None, logged (GetUserRole ''alice'' (Some ''org2'')) demoWorld)
   \<and> getInvoicesHandler ''alice'' ''org2'' demoWorld
       = (respond 403 ''Access denied'', logged (GetUserRole ''alice'' (Some ''org2'')) demoWorld)
   \<and> deleteCustomerHandler ''alice'' ''c2'' demoWorld
       = (respond 403 ''Access denied'',
          logged (GetUserRole ''alice'' (Some ''org2'')) (logged (GetCustomer ''c2'') demoWorld))"
proof -
  have h: "m_isActive (demoMembers ! 1) = Some False" "m_role (demoMembers ! 1) = ''admin''"
    by (simp_all add: demoMembers_def)
  have split: "take 1 demoMembers @ demoMembers ! 1 # drop 2 demoMembers = demoMembers"
    by (simp add: demoMembers_def)
  have lone: "\<forall>r\<in>set (organizationMembers (db demoWorld)).
      m_userId r = Some ''alice'' \<and> m_organizationId r = Some ''org2'' \<longrightarrow> m_isActive r = Some False"
    by (simp add: demoWorld_def demoDb_def demoMembers_def)
  have r: "\<not> rejectsAt 0 demoWorld" "\<not> rejectsAt 1 demoWorld"
    by (simp_all add: demoWorld_def rejectsAt_def)
  have c2: "selectCustomer ''c2'' (customers (db demoWorld)) = Some (demoCustomers ! 1)"
    "c_organizationId (demoCustomers ! 1) = Some ''org2''"
    by (simp_all add: demoWorld_def demoDb_def demoCustomers_def selectCustomer_def)
  from h lone r c2
    inactive_membership_is_no_membership [OF h(1),
      where xs = "take 1 demoMembers" and ys = "drop 2 demoMembers"
        and u = "''alice''" and g = "Some ''org2''" and g' = "''org2''" and w = demoWorld
        and bcd = "Some (newCustomer (Some ''org2''))" and nid' = "''n1''"
        and ?w2.0 = demoWorld and P = "''alice''" and ?O2.0 = "''org2''"
        and k = "''c2''" and c = "demoCustomers ! 1"]
  show ?thesis
    unfolding split by simp
qed

text \<open>
  C5 (fail-closed on a failing lookup). When the storage call that looks the
  membership up rejects, the handler answers 500 with its own failure message and
  stops there: the trace ends with the rejected lookup, so the protected read or
  mutation is not called, and the tables are as before. This holds for the role
  lookup of the seven reads and the five creations (their first call), for the role
  lookup of customer update and delete (their second call, after the customer was
  fetched), and for species creation, where the lookups are \<open>getUserOrganizations\<close>
  and one \<open>getUserRole\<close> for each organization listed: if any of them rejects, the
  answer is 500 and \<open>createSpecies\<close> is not called.
\<close>

theorem lookup_failure_fails_closed:
  "(rejectsAt 0 w \<longrightarrow>
           getOrganizationHandler u g w = (respond 500 ''Failed to fetch organization'', logged (GetUserRole u (Some g)) w)
           \<and> getDashboardHandler u g w = (respond 500 ''Failed to fetch dashboard metrics'', logged (GetUserRole u (Some g)) w)
           \<and> getCustomersHandler u g w = (respond 500 ''Failed to fetch customers'', logged (GetUserRole u (Some g)) w)
           \<and> getProcessingRecordsHandler u g w = (respond 500 ''Failed to fetch processing records'', logged (GetUserRole u (Some g)) w)
           \<and> getInventoryHandler u g w = (respond 500 ''Failed to fetch inventory items'', logged (GetUserRole u (Some g)) w)
           \<and> getInvoicesHandler u g w = (respond 500 ''Failed to fetch invoices'', logged (GetUserRole u (Some g)) w)
           \<and> getCutInstructionsHandler u g w = (respond 500 ''Failed to fetch cut instructions'', logged (GetUserRole u (Some g)) w)
           \<and> postCustomersHandler u (Some cd) nid w =
             (respond 500 ''Failed to create customer'', logged (GetUserRole u (ic_organizationId cd)) w)
           \<and> postProcessingRecordsHandler u (Some rd) nid w =
             (respond 500 ''Failed to create processing record'', logged (GetUserRole u (ipr_organizationId rd)) w)
           \<and> postInventoryHandler u (Some itd) nid w =
             (respond 500 ''Failed to create inventory item'', logged (GetUserRole u (iii_organizationId itd)) w)
           \<and> postInvoicesHandler u (Some ivd) nid w =
             (respond 500 ''Failed to create invoice'', logged (GetUserRole u (iinv_organizationId ivd)) w)
           \<and> postCutInstructionsHandler u (Some cud) nid w =
             (respond 500 ''Failed to create cut instruction'', logged (GetUserRole u (ici_organizationId cud)) w)
           \<and> postSpeciesHandler u (Some sd) nid w =
             (respond 500 ''Failed to create species'', logged (GetUserOrganizations u) w))
   \<and> (\<not> rejectsAt 0 w \<and> rejectsAt 1 w \<and> selectCustomer k (customers (db w)) = Some c \<longrightarrow>
           putCustomerHandler u k (Some p) w =
             (respond 500 ''Failed to update customer'',
              logged (GetUserRole u (c_organizationId c)) (logged (GetCustomer k) w))
           \<and> deleteCustomerHandler u k w =
             (respond 500 ''Failed to delete customer'',
              logged (GetUserRole u (c_organizationId c)) (logged (GetCustomer k) w)))
   \<and> (\<not> rejectsAt 0 w
           \<and> (\<exists>i < length (selectUserOrganizations u (organizations (db w))
                               (organizationMembers (db w))). rejectsAt (Suc i) w) \<longrightarrow>
           fst (postSpeciesHandler u (Some sd) nid w) = respond 500 ''Failed to create species''
           \<and> db (snd (postSpeciesHandler u (Some sd) nid w)) = db w
           \<and> (CreateSpecies \<notin> set (trace w) \<longrightarrow>
                CreateSpecies \<notin> set (trace (snd (postSpeciesHandler u (Some sd) nid w)))))"
proof -
  have p1: "(rejectsAt 0 w \<longrightarrow>
        getOrganizationHandler u g w = (respond 500 ''Failed to fetch organization'', logged (GetUserRole u (Some g)) w)
        \<and> getDashboardHandler u g w = (respond 500 ''Failed to fetch dashboard metrics'', logged (GetUserRole u (Some g)) w)
        \<and> getCustomersHandler u g w = (respond 500 ''Failed to fetch customers'', logged (GetUserRole u (Some g)) w)
        \<and> getProcessingRecordsHandler u g w = (respond 500 ''Failed to fetch processing records'', logged (GetUserRole u (Some g)) w)
        \<and> getInventoryHandler u g w = (respond 500 ''Failed to fetch inventory items'', logged (GetUserRole u (Some g)) w)
        \<and> getInvoicesHandler u g w = (respond 500 ''Failed to fetch invoices'', logged (GetUserRole u (Some g)) w)
        \<and> getCutInstructionsHandler u g w = (respond 500 ''Failed to fetch cut instructions'', logged (GetUserRole u (Some g)) w)
        \<and> postCustomersHandler u (Some cd) nid w =
          (respond 500 ''Failed to create customer'', logged (GetUserRole u (ic_organizationId cd)) w)
        \<and> postProcessingRecordsHandler u (Some rd) nid w =
          (respond 500 ''Failed to create processing record'', logged (GetUserRole u (ipr_organizationId rd)) w)
        \<and> postInventoryHandler u (Some itd) nid w =
          (respond 500 ''Failed to create inventory item'', logged (GetUserRole u (iii_organizationId itd)) w)
        \<and> postInvoicesHandler u (Some ivd) nid w =
          (respond 500 ''Failed to create invoice'', logged (GetUserRole u (iinv_organizationId ivd)) w)
        \<and> postCutInstructionsHandler u (Some cud) nid w =
          (respond 500 ''Failed to create cut instruction'', logged (GetUserRole u (ici_organizationId cud)) w)
        \<and> postSpeciesHandler u (Some sd) nid w =
          (respond 500 ''Failed to create species'', logged (GetUserOrganizations u) w))"
    by (simp add: getOrganizationHandler_fault getDashboardHandler_fault
        getCustomersHandler_fault getProcessingRecordsHandler_fault getInventoryHandler_fault
        getInvoicesHandler_fault getCutInstructionsHandler_fault postCustomersHandler_fault
        postProcessingRecordsHandler_fault postInventoryHandler_fault postInvoicesHandler_fault
        postCutInstructionsHandler_fault postSpeciesHandler_eq)
  have p2: "(\<not> rejectsAt 0 w \<and> rejectsAt 1 w \<and> selectCustomer k (customers (db w)) = Some c \<longrightarrow>
        putCustomerHandler u k (Some p) w =
          (respond 500 ''Failed to update customer'',
           logged (GetUserRole u (c_organizationId c)) (logged (GetCustomer k) w))
        \<and> deleteCustomerHandler u k w =
          (respond 500 ''Failed to delete customer'',
           logged (GetUserRole u (c_organizationId c)) (logged (GetCustomer k) w)))"
    using putCustomerHandler_fault [of w k c u p] deleteCustomerHandler_fault [of w k c u]
    by simp
  have p3: "(\<not> rejectsAt 0 w
        \<and> (\<exists>i < length (selectUserOrganizations u (organizations (db w))
                            (organizationMembers (db w))). rejectsAt (Suc i) w) \<longrightarrow>
        fst (postSpeciesHandler u (Some sd) nid w) = respond 500 ''Failed to create species''
        \<and> db (snd (postSpeciesHandler u (Some sd) nid w)) = db w
        \<and> (CreateSpecies \<notin> set (trace w) \<longrightarrow>
             CreateSpecies \<notin> set (trace (snd (postSpeciesHandler u (Some sd) nid w)))))"
  proof (intro impI, elim conjE exE)
    fix i
    let ?orgs = "selectUserOrganizations u (organizations (db w)) (organizationMembers (db w))"
    let ?w1 = "logged (GetUserOrganizations u) w"
    assume r0: "\<not> rejectsAt 0 w" and i: "i < length ?orgs" and ri: "rejectsAt (Suc i) w"
    from ri have "rejectsAt i ?w1" by simp
    with i have "Threw \<in> set (fst (roleChecks u ?orgs ?w1))"
      by (rule roleChecks_Threw)
    then have threw: "promiseAll (fst (roleChecks u ?orgs ?w1)) = Threw"
      by (rule promiseAll_Threw)
    from r0 threw have eq: "postSpeciesHandler u (Some sd) nid w =
        (respond 500 ''Failed to create species'', snd (roleChecks u ?orgs ?w1))"
      by (simp add: postSpeciesHandler_eq)
    have "CreateSpecies \<notin> set (trace w) \<longrightarrow>
        CreateSpecies \<notin> set (trace (snd (roleChecks u ?orgs ?w1)))"
      by (simp add: roleChecks_trace)
    with eq show "fst (postSpeciesHandler u (Some sd) nid w) = respond 500 ''Failed to create species''
        \<and> db (snd (postSpeciesHandler u (Some sd) nid w)) = db w
        \<and> (CreateSpecies \<notin> set (trace w) \<longrightarrow>
             CreateSpecies \<notin> set (trace (snd (postSpeciesHandler u (Some sd) nid w))))"
      by simp
  qed
  show ?thesis
    by (rule conjI [OF p1 conjI [OF p2 p3]])
qed

text \<open>
  The example: the store rejects the first call, then the second call only; erin is a
  member of one organization, so the second call of her species request is a role
  lookup.
\<close>

theorem lookup_failure_fails_closed_witness:
  "rejectsAt 0 (demoWorld\<lparr>faults := [True]\<rparr>)
   \<and> getDashboardHandler ''bob'' ''org2'' (demoWorld\<lparr>faults := [True]\<rparr>) =
       (respond 500 ''Failed to fetch dashboard metrics'',
        logged (GetUserRole ''bob'' (Some ''org2'')) (demoWorld\<lparr>faults := [True]\<rparr>))
   \<and> postCustomersHandler ''bob'' (Some (newCustomer (Some ''org2''))) ''s1''
         (demoWorld\<lparr>faults := [True]\<rparr>) =
       (respond 500 ''Failed to create customer'',
        logged (GetUserRole ''bob'' (Some ''org2'')) (demoWorld\<lparr>faults := [True]\<rparr>))
   \<and> deleteCustomerHandler ''bob'' ''c2'' (demoWorld\<lparr>faults := [False, True]\<rparr>) =
       (respond 500 ''Failed to delete customer'',
        logged (GetUserRole ''bob'' (Some ''org2''))
          (logged (GetCustomer ''c2'') (demoWorld\<lparr>faults := [False, True]\<rparr>)))
   \<and> fst (postSpeciesHandler ''erin'' (Some newSpecies) ''s1'' (demoWorld\<lparr>faults := [False, True]\<rparr>))
       = respond 500 ''Failed to create species''
   \<and> db (snd (postSpeciesHandler ''erin'' (Some newSpecies) ''s1'' (demoWorld\<lparr>faults := [False, True]\<rparr>)))
       = db demoWorld"
proof -
  let ?w1 = "demoWorld\<lparr>faults := [True]\<rparr>"
  let ?w2 = "demoWorld\<lparr>faults := [False, True]\<rparr>"
  have r1: "rejectsAt 0 ?w1"
    by (simp add: rejectsAt_def)
  have r2: "\<not> rejectsAt 0 ?w2" "rejectsAt 1 ?w2"
    by (simp_all add: rejectsAt_def)
  have c2: "selectCustomer ''c2'' (customers (db ?w2)) = Some (demoCustomers ! 1)"
    "c_organizationId (demoCustomers ! 1) = Some ''org2''"
    by (simp_all add: demoWorld_def demoDb_def demoCustomers_def selectCustomer_def)
  have orgs: "length (selectUserOrganizations ''erin'' (organizations (db ?w2))
      (organizationMembers (db ?w2))) = 1"
    by (simp add: demoWorld_def demoDb_def demoMembers_def selectUserOrganizations_def
        activeMemberOf_def)
  from orgs r2 have ex: "\<exists>i < length (selectUserOrganizations ''erin'' (organizations (db ?w2))
      (organizationMembers (db ?w2))). rejectsAt (Suc i) ?w2"
    by auto
  have dbs: "db ?w2 = db demoWorld"
    by simp
  from r1 r2 c2 ex
    lookup_failure_fails_closed [where w = ?w1 and u = "''bob''" and g = "''org2''"
      and cd = "newCustomer (Some ''org2'')" and nid = "''s1''"
      and rd = "newProcessingRecord (Some ''org2'')" and itd = "newInventoryItem (Some ''org2'')"
      and ivd = "newInvoice (Some ''org2'')" and cud = "newCutInstruction (Some ''org2'')"
      and sd = newSpecies and k = "''c2''" and c = "demoCustomers ! 1"
      and p = "renameTo ''Eli B.''"]
    lookup_failure_fails_closed [where w = ?w2 and u = "''bob''" and g = "''org2''"
      and cd = "newCustomer (Some ''org2'')" and nid = "''s1''"
      and rd = "newProcessingRecord (Some ''org2'')" and itd = "newInventoryItem (Some ''org2'')"
      and ivd = "newInvoice (Some ''org2'')" and cud = "newCutInstruction (Some ''org2'')"
      and sd = newSpecies and k = "''c2''" and c = "demoCustomers ! 1"
      and p = "renameTo ''Eli B.''"]
    lookup_failure_fails_closed [where w = ?w2 and u = "''erin''" and g = "''org2''"
      and cd = "newCustomer (Some ''org2'')" and nid = "''s1''"
      and rd = "newProcessingRecord (Some ''org2'')" and itd = "newInventoryItem (Some ''org2'')"
      and ivd = "newInvoice (Some ''org2'')" and cud = "newCutInstruction (Some ''org2'')"
      and sd = newSpecies and k = "''c2''" and c = "demoCustomers ! 1"
      and p = "renameTo ''Eli B.''"]
  show ?thesis
    unfolding dbs by (simp add: newCustomer_def)
qed

text \<open>
  C6 (a request whose identifier fails format validation is rejected with 400 before
  any store call). The code breaks it, for it validates no identifier. The
  organization id \<open>unauthorized-org-id\<close>, which the repository's own isolation
  test sends, is no uuid. \<open>validateOrganizationAccess\<close>, the one middleware that
  looks at the organization id, lets it pass. The handler of
  \<open>GET /api/organizations/:id\<close> hands it to \<open>getUserRole\<close>; the database refuses
  the text for the uuid column \<open>organization_id\<close>, so the storage call rejects,
  and the handler answers 500 "Failed to fetch organization" with that store call
  made.
\<close>

theorem malformed_organization_id_reaches_store:
  "\<not> isUuid ''unauthorized-org-id''
   \<and> validateOrganizationAccess (Some ''mallory'') (Some ''unauthorized-org-id'') None = None
   \<and> rejectsAt 0 (demoWorld\<lparr>faults := [True]\<rparr>)
   \<and> getOrganizationHandler ''mallory'' ''unauthorized-org-id'' (demoWorld\<lparr>faults := [True]\<rparr>)
       = (respond 500 ''Failed to fetch organization'',
          logged (GetUserRole ''mallory'' (Some ''unauthorized-org-id''))
            (demoWorld\<lparr>faults := [True]\<rparr>))
   \<and> status (fst (getOrganizationHandler ''mallory'' ''unauthorized-org-id''
                    (demoWorld\<lparr>faults := [True]\<rparr>))) = 500
   \<and> trace (snd (getOrganizationHandler ''mallory'' ''unauthorized-org-id''
                    (demoWorld\<lparr>faults := [True]\<rparr>)))
       = [GetUserRole ''mallory'' (Some ''unauthorized-org-id'')]"
  by (simp add: isUuid_def validateOrganizationAccess_def getOrganizationHandler_def
      getUserRole_eq rejectsAt_def demoWorld_def falsy_def respond_def)

text \<open>
  C7 (species creation is for owners and admins). \<open>POST /api/species\<close> answers 200
  only when the member table holds an active member row of the principal with role
  owner or admin. With a store that answers, a principal whose active member rows
  all carry other roles (editor, viewer, ...), or who has none, gets 403 and no
  species row is written; and a principal for whom \<open>getUserRole\<close> resolves owner or
  admin in one of the organizations gets 200.
\<close>

theorem species_creation_requires_owner_or_admin:
  "(status (fst (postSpeciesHandler u parsed nid w)) = 200 \<longrightarrow>
      (\<exists>m\<in>set (organizationMembers (db w)). m_userId m = Some u
          \<and> m_isActive m = Some True \<and> m_role m \<in> {''owner'', ''admin''}))
   \<and> (noFaults w
       \<and> (\<forall>m\<in>set (organizationMembers (db w)).
             m_userId m = Some u \<and> m_isActive m = Some True \<longrightarrow> m_role m \<notin> {''owner'', ''admin''}) \<longrightarrow>
       status (fst (postSpeciesHandler u (Some sd) nid w)) = 403
       \<and> fst (postSpeciesHandler u (Some sd) nid w) =
           respond 403 ''Access denied. Only organization owners and admins can create species.''
       \<and> db (snd (postSpeciesHandler u (Some sd) nid w)) = db w)
   \<and> (noFaults w \<and> org \<in> set (organizations (db w))
       \<and> selectUserRole u (Some (o_id org)) (organizationMembers (db w))
            \<in> {Some ''owner'', Some ''admin''} \<longrightarrow>
       status (fst (postSpeciesHandler u (Some sd) nid w)) = 200)"
proof (intro conjI impI)
  assume "status (fst (postSpeciesHandler u parsed nid w)) = 200"
  then show "\<exists>m\<in>set (organizationMembers (db w)). m_userId m = Some u
      \<and> m_isActive m = Some True \<and> m_role m \<in> {''owner'', ''admin''}"
    by (rule postSpeciesHandler_200)
next
  assume a: "noFaults w
      \<and> (\<forall>m\<in>set (organizationMembers (db w)).
            m_userId m = Some u \<and> m_isActive m = Some True \<longrightarrow> m_role m \<notin> {''owner'', ''admin''})"
  then have d: "fst (postSpeciesHandler u (Some sd) nid w) =
      respond 403 ''Access denied. Only organization owners and admins can create species.''
    \<and> db (snd (postSpeciesHandler u (Some sd) nid w)) = db w"
    using postSpeciesHandler_not_admin [of w u sd nid] by blast
  from d show "status (fst (postSpeciesHandler u (Some sd) nid w)) = 403"
    by (simp add: respond_def)
  from d show "fst (postSpeciesHandler u (Some sd) nid w) =
      respond 403 ''Access denied. Only organization owners and admins can create species.''"
    by simp
  from d show "db (snd (postSpeciesHandler u (Some sd) nid w)) = db w"
    by simp
next
  assume "noFaults w \<and> org \<in> set (organizations (db w))
      \<and> selectUserRole u (Some (o_id org)) (organizationMembers (db w))
           \<in> {Some ''owner'', Some ''admin''}"
  then show "status (fst (postSpeciesHandler u (Some sd) nid w)) = 200"
    using postSpeciesHandler_admin [of w org u sd nid] by blast
qed

text \<open>
  The example: erin is admin of org2, bob its editor, carol its viewer, and mallory
  has no membership.
\<close>

theorem species_creation_requires_owner_or_admin_witness:
  "noFaults demoWorld
   \<and> status (fst (postSpeciesHandler ''erin'' (Some newSpecies) ''s1'' demoWorld)) = 200
   \<and> (\<exists>m\<in>set (organizationMembers (db demoWorld)). m_userId m = Some ''erin''
          \<and> m_isActive m = Some True \<and> m_role m \<in> {''owner'', ''admin''})
   \<and> status (fst (postSpeciesHandler ''bob'' (Some newSpecies) ''s1'' demoWorld)) = 403
   \<and> status (fst (postSpeciesHandler ''carol'' (Some newSpecies) ''s1'' demoWorld)) = 403
   \<and> status (fst (postSpeciesHandler ''mallory'' (Some newSpecies) ''s1'' demoWorld)) = 403
   \<and> db (snd (postSpeciesHandler ''mallory'' (Some newSpecies) ''s1'' demoWorld)) = db demoWorld"
proof -
  have nf: "noFaults demoWorld"
    by (simp add: demoWorld_def noFaults_def)
  have org: "\<lparr>o_id = ''org2'', o_name = ''Bravo Beef''\<rparr> \<in> set (organizations (db demoWorld))"
    by (simp add: demoWorld_def demoDb_def)
  have erin: "selectUserRole ''erin'' (Some (o_id \<lparr>o_id = ''org2'', o_name = ''Bravo Beef''\<rparr>))
      (organizationMembers (db demoWorld)) \<in> {Some ''owner'', Some ''admin''}"
    by (simp add: demoWorld_def demoDb_def demoMembers_def selectUserRole_def activeMemberOf_def)
  have others:
    "\<forall>m\<in>set (organizationMembers (db demoWorld)).
       m_userId m = Some ''bob'' \<and> m_isActive m = Some True \<longrightarrow> m_role m \<notin> {''owner'', ''admin''}"
    "\<forall>m\<in>set (organizationMembers (db demoWorld)).
       m_userId m = Some ''carol'' \<and> m_isActive m = Some True \<longrightarrow> m_role m \<notin> {''owner'', ''admin''}"
    "\<forall>m\<in>set (organizationMembers (db demoWorld)).
       m_userId m = Some ''mallory'' \<and> m_isActive m = Some True \<longrightarrow> m_role m \<notin> {''owner'', ''admin''}"
    by (simp_all add: demoWorld_def demoDb_def demoMembers_def)
  note inst = species_creation_requires_owner_or_admin [where w = demoWorld
      and parsed = "Some newSpecies" and sd = newSpecies and nid = "''s1''"
      and org = "\<lparr>o_id = ''org2'', o_name = ''Bravo Beef''\<rparr>"]
  from nf org erin inst [where u = "''erin''"]
  have e: "status (fst (postSpeciesHandler ''erin'' (Some newSpecies) ''s1'' demoWorld)) = 200"
    by blast
  with inst [where u = "''erin''"]
  have m: "\<exists>m\<in>set (organizationMembers (db demoWorld)). m_userId m = Some ''erin''
      \<and> m_isActive m = Some True \<and> m_role m \<in> {''owner'', ''admin''}"
    by blast
  from nf others inst [where u = "''bob''"] inst [where u = "''carol''"] inst [where u = "''mallory''"]
  have d: "status (fst (postSpeciesHandler ''bob'' (Some newSpecies) ''s1'' demoWorld)) = 403"
    "status (fst (postSpeciesHandler ''carol'' (Some newSpecies) ''s1'' demoWorld)) = 403"
    "status (fst (postSpeciesHandler ''mallory'' (Some newSpecies) ''s1'' demoWorld)) = 403"
    "db (snd (postSpeciesHandler ''mallory'' (Some newSpecies) ''s1'' demoWorld)) = db demoWorld"
    by blast+
  from nf e m d show ?thesis by simp
qed




text \<open>
  C9 (existence is checked before authorization). On customer update (with a body
  that the schema accepts) and customer delete, when the store answers and holds no
  customer with the given id, every principal gets 404 "Customer not found",
  whatever the member table holds for them: the handler stops after
  \<open>getCustomer\<close> and never looks a role up. For an existing customer, a principal
  without a role in its organization gets 403 instead, so the two answers tell such
  a caller whether the id exists.
\<close>

theorem missing_customer_is_404_before_authorization:
  assumes "\<not> rejectsAt 0 w"
  shows "(selectCustomer k (customers (db w)) = None \<longrightarrow>
           putCustomerHandler u k (Some p) w =
             (respond 404 ''Customer not found'', logged (GetCustomer k) w)
           \<and> deleteCustomerHandler u k w =
             (respond 404 ''Customer not found'', logged (GetCustomer k) w))
       \<and> (selectCustomer k (customers (db w)) = Some c \<and> \<not> rejectsAt 1 w
           \<and> \<not> (\<exists>m\<in>set (organizationMembers (db w)). activeMemberOf u (c_organizationId c) m) \<longrightarrow>
           putCustomerHandler u k (Some p) w =
             (respond 403 ''Access denied'',
              logged (GetUserRole u (c_organizationId c)) (logged (GetCustomer k) w))
           \<and> deleteCustomerHandler u k w =
             (respond 403 ''Access denied'',
              logged (GetUserRole u (c_organizationId c)) (logged (GetCustomer k) w)))"
proof (intro conjI impI)
  assume "selectCustomer k (customers (db w)) = None"
  with assms show "putCustomerHandler u k (Some p) w =
      (respond 404 ''Customer not found'', logged (GetCustomer k) w)"
    by (simp add: putCustomerHandler_def getCustomer_eq)
next
  assume "selectCustomer k (customers (db w)) = None"
  with assms show "deleteCustomerHandler u k w =
      (respond 404 ''Customer not found'', logged (GetCustomer k) w)"
    by (simp add: deleteCustomerHandler_def getCustomer_eq)
next
  assume a: "selectCustomer k (customers (db w)) = Some c \<and> \<not> rejectsAt 1 w
      \<and> \<not> (\<exists>m\<in>set (organizationMembers (db w)). activeMemberOf u (c_organizationId c) m)"
  then have "selectUserRole u (c_organizationId c) (organizationMembers (db w)) = None"
    by (simp add: selectUserRole_None)
  with a assms show "putCustomerHandler u k (Some p) w =
      (respond 403 ''Access denied'',
       logged (GetUserRole u (c_organizationId c)) (logged (GetCustomer k) w))"
    by (simp add: putCustomerHandler_denied)
next
  assume a: "selectCustomer k (customers (db w)) = Some c \<and> \<not> rejectsAt 1 w
      \<and> \<not> (\<exists>m\<in>set (organizationMembers (db w)). activeMemberOf u (c_organizationId c) m)"
  then have "selectUserRole u (c_organizationId c) (organizationMembers (db w)) = None"
    by (simp add: selectUserRole_None)
  with a assms show "deleteCustomerHandler u k w =
      (respond 403 ''Access denied'',
       logged (GetUserRole u (c_organizationId c)) (logged (GetCustomer k) w))"
    by (simp add: deleteCustomerHandler_denied)
qed

text \<open>
  The example: mallory, a member of no organization, asks for a customer id that
  does not exist and for one that does.
\<close>

theorem missing_customer_is_404_before_authorization_witness:
  "\<not> rejectsAt 0 demoWorld
   \<and> selectCustomer ''c9'' (customers (db demoWorld)) = None
   \<and> putCustomerHandler ''mallory'' ''c9'' (Some (renameTo ''X'')) demoWorld =
       (respond 404 ''Customer not found'', logged (GetCustomer ''c9'') demoWorld)
   \<and> deleteCustomerHandler ''mallory'' ''c9'' demoWorld =
       (respond 404 ''Customer not found'', logged (GetCustomer ''c9'') demoWorld)
   \<and> trace (snd (deleteCustomerHandler ''mallory'' ''c9'' demoWorld)) = [GetCustomer ''c9'']
   \<and> deleteCustomerHandler ''mallory'' ''c2'' demoWorld =
       (respond 403 ''Access denied'',
        logged (GetUserRole ''mallory'' (Some ''org2'')) (logged (GetCustomer ''c2'') demoWorld))"
proof -
  have r: "\<not> rejectsAt 0 demoWorld" "\<not> rejectsAt 1 demoWorld"
    by (simp_all add: demoWorld_def rejectsAt_def)
  have c9: "selectCustomer ''c9'' (customers (db demoWorld)) = None"
    by (simp add: demoWorld_def demoDb_def demoCustomers_def selectCustomer_def)
  have c2: "selectCustomer ''c2'' (customers (db demoWorld)) = Some (demoCustomers ! 1)"
    "c_organizationId (demoCustomers ! 1) = Some ''org2''"
    by (simp_all add: demoWorld_def demoDb_def demoCustomers_def selectCustomer_def)
  have out: "\<not> (\<exists>m\<in>set (organizationMembers (db demoWorld)).
      activeMemberOf ''mallory'' (Some ''org2'') m)"
    by (simp add: demoWorld_def demoDb_def demoMembers_def activeMemberOf_def)
  have tr: "trace demoWorld = []"
    by (simp add: demoWorld_def)
  from r c9 c2 out tr
    missing_customer_is_404_before_authorization [OF r(1), where k = "''c9''"
      and u = "''mallory''" and p = "renameTo ''X''" and c = "demoCustomers ! 1"]
    missing_customer_is_404_before_authorization [OF r(1), where k = "''c2''"
      and u = "''mallory''" and p = "renameTo ''X''" and c = "demoCustomers ! 1"]
  show ?thesis
    by simp
qed

text \<open>
  C10 (customer deletion is a soft delete). Let the store answer and hold a customer
  with id \<open>k\<close>, \<open>c\<close> being the row that \<open>getCustomer\<close> returns for it. Then
  \<open>deleteCustomer\<close> removes no row: the table keeps its ids in their order, and the
  row of \<open>k\<close> now has \<open>isActive = false\<close> and \<open>updatedAt\<close> set to the current
  time, its other columns unchanged. Afterwards no listing of \<open>getCustomers\<close>
  contains a row with id \<open>k\<close>, while \<open>getCustomer\<close> still returns the row; and a
  principal whose role in the organization of \<open>c\<close> is owner, admin or editor gets
  200 from both the update and the delete of \<open>k\<close> again.
\<close>

theorem delete_customer_is_soft:
  assumes "noFaults w"
    and "selectCustomer k (customers (db w)) = Some c"
  shows "fst (deleteCustomer k w) = Ret ()
       \<and> map c_id (customers (db (snd (deleteCustomer k w)))) = map c_id (customers (db w))
       \<and> selectCustomer k (customers (db (snd (deleteCustomer k w)))) =
           Some (c\<lparr>c_isActive := Some False, c_updatedAt := now w\<rparr>)
       \<and> getCustomer k (snd (deleteCustomer k w)) =
           (Ret (Some (c\<lparr>c_isActive := Some False, c_updatedAt := now w\<rparr>)),
            logged (GetCustomer k) (snd (deleteCustomer k w)))
       \<and> fst (getCustomers g (snd (deleteCustomer k w))) =
           Ret (selectCustomers g (customers (db (snd (deleteCustomer k w)))))
       \<and> (\<forall>x\<in>set (selectCustomers g (customers (db (snd (deleteCustomer k w))))). c_id x \<noteq> k)
       \<and> (selectUserRole u (c_organizationId c) (organizationMembers (db w))
            \<in> {Some ''owner'', Some ''admin'', Some ''editor''} \<longrightarrow>
          status (fst (putCustomerHandler u k (Some p) (snd (deleteCustomer k w)))) = 200
          \<and> status (fst (deleteCustomerHandler u k (snd (deleteCustomer k w)))) = 200)"
proof -
  let ?w' = "snd (deleteCustomer k w)"
  let ?c' = "c\<lparr>c_isActive := Some False, c_updatedAt := now w\<rparr>"
  from assms(1) have r0: "\<not> rejectsAt 0 w" by simp
  have cs: "customers (db ?w') =
      map (\<lambda>c. if c_id c = k then softDelete (now w) c else c) (customers (db w))"
    and ms: "organizationMembers (db ?w') = organizationMembers (db w)"
    and ok: "fst (deleteCustomer k w) = Ret ()"
    using r0 by (simp_all add: deleteCustomer_eq)
  from assms(1) have nf: "noFaults ?w'"
    by (simp add: deleteCustomer_eq)
  have ids: "map c_id (customers (db ?w')) = map c_id (customers (db w))"
    unfolding cs by (rule ids_soft)
  have sel: "selectCustomer k (customers (db ?w')) = Some ?c'"
    unfolding cs by (simp add: selectCustomer_soft assms(2) softDelete_def)
  from nf sel have get: "getCustomer k ?w' = (Ret (Some ?c'), logged (GetCustomer k) ?w')"
    by (simp add: getCustomer_eq)
  from nf have lst: "fst (getCustomers g ?w') = Ret (selectCustomers g (customers (db ?w')))"
    by (simp add: getCustomers_def attempt_def)
  have excl: "\<forall>x\<in>set (selectCustomers g (customers (db ?w'))). c_id x \<noteq> k"
    unfolding cs by (blast dest: selectCustomers_soft)
  have again: "selectUserRole u (c_organizationId c) (organizationMembers (db w))
        \<in> {Some ''owner'', Some ''admin'', Some ''editor''} \<longrightarrow>
      status (fst (putCustomerHandler u k (Some p) ?w')) = 200
      \<and> status (fst (deleteCustomerHandler u k ?w')) = 200"
  proof
    assume "selectUserRole u (c_organizationId c) (organizationMembers (db w))
        \<in> {Some ''owner'', Some ''admin'', Some ''editor''}"
    then have role: "selectUserRole u (c_organizationId ?c') (organizationMembers (db ?w'))
        \<in> {Some ''owner'', Some ''admin'', Some ''editor''}"
      by (simp add: ms)
    from putCustomerHandler_allowed [OF nf sel role] deleteCustomerHandler_allowed [OF nf sel role]
    show "status (fst (putCustomerHandler u k (Some p) ?w')) = 200
        \<and> status (fst (deleteCustomerHandler u k ?w')) = 200"
      by simp
  qed
  show ?thesis
    by (rule conjI [OF ok conjI [OF ids conjI [OF sel conjI [OF get conjI [OF lst
        conjI [OF excl again]]]]]])
qed

text \<open>
  The example: the customer c2 of org2 is deleted; bob is an editor of org2.
\<close>

theorem delete_customer_is_soft_witness:
  "noFaults demoWorld
   \<and> selectCustomer ''c2'' (customers (db demoWorld)) = Some (demoCustomers ! 1)
   \<and> fst (deleteCustomer ''c2'' demoWorld) = Ret ()
   \<and> map c_id (customers (db (snd (deleteCustomer ''c2'' demoWorld)))) = [''c1'', ''c2'']
   \<and> selectCustomer ''c2'' (customers (db (snd (deleteCustomer ''c2'' demoWorld)))) =
       Some \<lparr>c_id = ''c2'', c_organizationId = Some ''org2'', c_name = ''Eli'', c_email = None,
             c_isActive = Some False, c_createdAt = 2, c_updatedAt = 10\<rparr>
   \<and> selectCustomers ''org2'' (customers (db demoWorld)) = [demoCustomers ! 1]
   \<and> selectCustomers ''org2'' (customers (db (snd (deleteCustomer ''c2'' demoWorld)))) = []
   \<and> status (fst (putCustomerHandler ''bob'' ''c2'' (Some (renameTo ''Eli B.''))
                    (snd (deleteCustomer ''c2'' demoWorld)))) = 200
   \<and> status (fst (deleteCustomerHandler ''bob'' ''c2'' (snd (deleteCustomer ''c2'' demoWorld)))) = 200"
proof -
  have nf: "noFaults demoWorld"
    by (simp add: demoWorld_def noFaults_def)
  have c2: "selectCustomer ''c2'' (customers (db demoWorld)) = Some (demoCustomers ! 1)"
    by (simp add: demoWorld_def demoDb_def demoCustomers_def selectCustomer_def)
  have row: "demoCustomers ! 1 =
      \<lparr>c_id = ''c2'', c_organizationId = Some ''org2'', c_name = ''Eli'', c_email = None,
       c_isActive = Some True, c_createdAt = 2, c_updatedAt = 2\<rparr>"
    by (simp add: demoCustomers_def)
  have bob: "selectUserRole ''bob'' (c_organizationId (demoCustomers ! 1))
      (organizationMembers (db demoWorld)) \<in> {Some ''owner'', Some ''admin'', Some ''editor''}"
    unfolding row
    by (simp add: demoWorld_def demoDb_def demoMembers_def selectUserRole_def
        activeMemberOf_def)
  have before: "selectCustomers ''org2'' (customers (db demoWorld)) = [demoCustomers ! 1]"
    by (simp add: demoWorld_def demoDb_def demoCustomers_def selectCustomers_def)
  have ids: "map c_id (customers (db demoWorld)) = [''c1'', ''c2'']"
    and t: "now demoWorld = 10"
    by (simp_all add: demoWorld_def demoDb_def demoCustomers_def)
  have after: "selectCustomers ''org2'' (customers (db (snd (deleteCustomer ''c2'' demoWorld)))) = []"
    using nf
    by (simp add: deleteCustomer_eq demoWorld_def demoDb_def demoCustomers_def
        selectCustomers_def softDelete_def)
  from nf c2 bob before ids t after
    delete_customer_is_soft [OF nf c2, of "''org2''" "''bob''" "renameTo ''Eli B.''"]
  show ?thesis
    unfolding row by simp
qed

end
